theory Spec2Isabelle
  imports Main "HOL-Library.Word"
begin

unbundle bit_operations_syntax

section \<open>Constants and data of the scanner\<close>

text \<open>
  The two programs of the repository, \<^verbatim>\<open>udp_scanner.c\<close> and
  \<^verbatim>\<open>udp_scanner_extended.c\<close>, share their control flow and differ in the
  lines they print and in the probe table. Definitions without suffix embed
  \<^verbatim>\<open>udp_scanner.c\<close>; definitions ending in \<open>_ext\<close> embed
  \<^verbatim>\<open>udp_scanner_extended.c\<close>.

  C \<^verbatim>\<open>int\<close> and \<^verbatim>\<open>ssize_t\<close> values are modelled as \<open>int\<close>: ports are
  range-checked to 1..65535 before any arithmetic and each counter grows by at most
  one per classification attempt, so no computation of the programs leaves the range
  of a 32-bit integer. Bytes of packet buffers are \<open>8 word\<close>.
\<close>

type_synonym byte = "8 word"

definition MAX_PACKET_SIZE :: nat where
  "MAX_PACKET_SIZE = 65536"

definition TIMEOUT_SEC :: nat where
  "TIMEOUT_SEC = 2"

definition TIMEOUT_USEC :: nat where
  "TIMEOUT_USEC = 0"

definition MAX_RETRIES :: nat where
  "MAX_RETRIES = 2"

text \<open>
  From the system header \<^verbatim>\<open>netinet/ip_icmp.h\<close>: ICMP type 3 is "destination
  unreachable", and code 3 of that type is "port unreachable".
\<close>

definition ICMP_UNREACH :: byte where
  "ICMP_UNREACH = 3"

definition ICMP_UNREACH_PORT :: byte where
  "ICMP_UNREACH_PORT = 3"

subsection \<open>The probe table of \<^verbatim>\<open>udp_scanner.c\<close>\<close>

text \<open>
  \<^verbatim>\<open>udp_probe_t\<close>. A \<^verbatim>\<open>const char *\<close> that may be \<^verbatim>\<open>NULL\<close> is a
  \<open>string option\<close>; the payload pointer is the byte array it points to.
\<close>

record udp_probe_t =
  probe_port :: int
  service_name :: "string option"
  payload :: "byte list"
  payload_len :: nat
  expected_response :: "string option"

text \<open>The payload arrays, byte for byte (a string literal includes its final NUL).\<close>

definition dns_probe :: "byte list" where
  "dns_probe =
    [0x00, 0x00, 0x01, 0x00, 0x00, 0x01, 0x00, 0x00, 0x00, 0x00, 0x00, 0x00,
     0x07, 0x76, 0x65, 0x72, 0x73, 0x69, 0x6f, 0x6e, 0x04, 0x62, 0x69, 0x6e,
     0x64, 0x00, 0x00, 0x10, 0x00, 0x03]"

definition ntp_probe :: "byte list" where
  "ntp_probe =
    [0x1b, 0x00, 0x00, 0x00, 0x00, 0x00, 0x00, 0x00, 0x00, 0x00, 0x00, 0x00,
     0x00, 0x00, 0x00, 0x00, 0x00, 0x00, 0x00, 0x00, 0x00, 0x00, 0x00, 0x00,
     0x00, 0x00, 0x00, 0x00, 0x00, 0x00, 0x00, 0x00, 0x00, 0x00, 0x00, 0x00,
     0x00, 0x00, 0x00, 0x00]"

definition snmp_probe :: "byte list" where
  "snmp_probe =
    [0x30, 0x26, 0x02, 0x01, 0x00, 0x04, 0x06, 0x70, 0x75, 0x62, 0x6c, 0x69,
     0x63, 0xa0, 0x19, 0x02, 0x04, 0x00, 0x00, 0x00, 0x01, 0x02, 0x01, 0x00,
     0x02, 0x01, 0x00, 0x30, 0x0b, 0x30, 0x09, 0x06, 0x05, 0x2b, 0x06, 0x01,
     0x02, 0x01, 0x05, 0x00]"

definition dhcp_probe :: "byte list" where
  "dhcp_probe =
    [0x01, 0x01, 0x06, 0x00, 0x00, 0x00, 0x00, 0x01, 0x00, 0x00, 0x00, 0x00,
     0x00, 0x00, 0x00, 0x00, 0x00, 0x00, 0x00, 0x00, 0x00, 0x00, 0x00, 0x00,
     0x00, 0x00, 0x00, 0x00, 0x00, 0x00, 0x00, 0x00, 0x00, 0x00, 0x00, 0x00,
     0x00, 0x00, 0x00, 0x00, 0x00, 0x00, 0x00, 0x00, 0x00, 0x00, 0x00, 0x00,
     0x00, 0x00, 0x00, 0x00, 0x00, 0x00, 0x00, 0x00, 0x00, 0x00, 0x00, 0x00,
     0x00, 0x00, 0x00, 0x00, 0x00, 0x00, 0x00, 0x00, 0x00, 0x00, 0x00, 0x00,
     0x00, 0x00, 0x00, 0x00, 0x00, 0x00, 0x00, 0x00, 0x00, 0x00, 0x00, 0x00,
     0x00, 0x00, 0x00, 0x00, 0x00, 0x00, 0x00, 0x00, 0x00, 0x00, 0x00, 0x00,
     0x00, 0x00, 0x00, 0x00, 0x00, 0x00, 0x00, 0x00, 0x00, 0x00, 0x00, 0x00,
     0x00, 0x00, 0x00, 0x00, 0x00, 0x00, 0x00, 0x00, 0x00, 0x00, 0x00, 0x00,
     0x00, 0x00, 0x00, 0x00, 0x00, 0x00, 0x00, 0x00, 0x00, 0x00, 0x00, 0x00,
     0x00, 0x00, 0x00, 0x00, 0x00, 0x00, 0x00, 0x00, 0x00, 0x00, 0x00, 0x00,
     0x00, 0x00, 0x00, 0x00, 0x00, 0x00, 0x00, 0x00, 0x00, 0x00, 0x00, 0x00,
     0x00, 0x00, 0x00, 0x00, 0x00, 0x00, 0x00, 0x00, 0x00, 0x00, 0x00, 0x00,
     0x00, 0x00, 0x00, 0x00, 0x00, 0x00, 0x00, 0x00, 0x00, 0x00, 0x00, 0x00,
     0x00, 0x00, 0x00, 0x00, 0x00, 0x00, 0x00, 0x00, 0x00, 0x00, 0x00, 0x00,
     0x00, 0x00, 0x00, 0x00, 0x00, 0x00, 0x00, 0x00, 0x00, 0x00, 0x00, 0x00,
     0x00, 0x00, 0x00, 0x00, 0x00, 0x00, 0x00, 0x00, 0x00, 0x00, 0x00, 0x00,
     0x00, 0x00, 0x00, 0x00, 0x00, 0x00, 0x00, 0x00, 0x00, 0x00, 0x00, 0x00,
     0x00, 0x00, 0x00, 0x00, 0x00, 0x00, 0x00, 0x00, 0x63, 0x82, 0x53, 0x63,
     0x35, 0x01, 0x01, 0xff]"

definition netbios_probe :: "byte list" where
  "netbios_probe =
    [0x00, 0x00, 0x00, 0x10, 0x00, 0x01, 0x00, 0x00, 0x00, 0x00, 0x00, 0x00,
     0x20, 0x43, 0x4b, 0x41, 0x41, 0x41, 0x41, 0x41, 0x41, 0x41, 0x41, 0x41,
     0x41, 0x41, 0x41, 0x41, 0x41, 0x41, 0x41, 0x41, 0x41, 0x41, 0x41, 0x41,
     0x41, 0x41, 0x41, 0x41, 0x41, 0x41, 0x41, 0x41, 0x00, 0x00, 0x21, 0x00,
     0x01]"

definition sip_probe :: "byte list" where
  "sip_probe =
    [0x4f, 0x50, 0x54, 0x49, 0x4f, 0x4e, 0x53, 0x20, 0x73, 0x69, 0x70, 0x3a,
     0x6e, 0x6d, 0x20, 0x53, 0x49, 0x50, 0x2f, 0x32, 0x2e, 0x30, 0x0d, 0x0a,
     0x56, 0x69, 0x61, 0x3a, 0x20, 0x53, 0x49, 0x50, 0x2f, 0x32, 0x2e, 0x30,
     0x2f, 0x55, 0x44, 0x50, 0x20, 0x6e, 0x6d, 0x3b, 0x62, 0x72, 0x61, 0x6e,
     0x63, 0x68, 0x3d, 0x66, 0x6f, 0x6f, 0x0d, 0x0a, 0x46, 0x72, 0x6f, 0x6d,
     0x3a, 0x20, 0x3c, 0x73, 0x69, 0x70, 0x3a, 0x6e, 0x6d, 0x40, 0x6e, 0x6d,
     0x3e, 0x3b, 0x74, 0x61, 0x67, 0x3d, 0x72, 0x6f, 0x6f, 0x74, 0x0d, 0x0a,
     0x54, 0x6f, 0x3a, 0x20, 0x3c, 0x73, 0x69, 0x70, 0x3a, 0x6e, 0x6d, 0x32,
     0x40, 0x6e, 0x6d, 0x32, 0x3e, 0x0d, 0x0a, 0x43, 0x61, 0x6c, 0x6c, 0x2d,
     0x49, 0x44, 0x3a, 0x20, 0x35, 0x30, 0x30, 0x30, 0x30, 0x0d, 0x0a, 0x43,
     0x53, 0x65, 0x71, 0x3a, 0x20, 0x34, 0x32, 0x20, 0x4f, 0x50, 0x54, 0x49,
     0x4f, 0x4e, 0x53, 0x0d, 0x0a, 0x4d, 0x61, 0x78, 0x2d, 0x46, 0x6f, 0x72,
     0x77, 0x61, 0x72, 0x64, 0x73, 0x3a, 0x20, 0x37, 0x30, 0x0d, 0x0a, 0x43,
     0x6f, 0x6e, 0x74, 0x65, 0x6e, 0x74, 0x2d, 0x4c, 0x65, 0x6e, 0x67, 0x74,
     0x68, 0x3a, 0x20, 0x30, 0x0d, 0x0a, 0x0d, 0x0a, 0x00]"

definition empty_probe :: "byte list" where
  "empty_probe = [0x00]"

text \<open>\<^verbatim>\<open>strlen\<close>: the number of bytes before the first NUL.\<close>

definition strlen :: "byte list \<Rightarrow> nat" where
  "strlen s = length (takeWhile (\<lambda>b. b \<noteq> 0) s)"

definition mk_probe :: "int \<Rightarrow> string option \<Rightarrow> byte list \<Rightarrow> nat \<Rightarrow> string option \<Rightarrow> udp_probe_t" where
  "mk_probe p s b l e =
     \<lparr>probe_port = p, service_name = s, payload = b, payload_len = l, expected_response = e\<rparr>"

definition udp_probes :: "udp_probe_t list" where
  "udp_probes =
    [mk_probe 53 (Some ''DNS'') dns_probe (length dns_probe) (Some ''DNS response''),
     mk_probe 123 (Some ''NTP'') ntp_probe (length ntp_probe) (Some ''NTP response''),
     mk_probe 161 (Some ''SNMP'') snmp_probe (length snmp_probe) (Some ''SNMP response''),
     mk_probe 67 (Some ''DHCP'') dhcp_probe (length dhcp_probe) (Some ''DHCP response''),
     mk_probe 68 (Some ''DHCP'') dhcp_probe (length dhcp_probe) (Some ''DHCP response''),
     mk_probe 137 (Some ''NetBIOS'') netbios_probe (length netbios_probe) (Some ''NetBIOS response''),
     mk_probe 138 (Some ''NetBIOS'') netbios_probe (length netbios_probe) (Some ''NetBIOS response''),
     mk_probe 5060 (Some ''SIP'') sip_probe (strlen sip_probe) (Some ''SIP response''),
     mk_probe 69 (Some ''TFTP'') empty_probe 0 (Some ''TFTP response''),
     mk_probe 514 (Some ''Syslog'') empty_probe 0 (Some ''Syslog response''),
     mk_probe 520 (Some ''RIP'') empty_probe 0 (Some ''RIP response''),
     mk_probe 1900 (Some ''SSDP'') empty_probe 0 (Some ''SSDP response''),
     mk_probe 0 None [] 0 None]"

text \<open>
  \<^verbatim>\<open>get_probe_for_port\<close>: walk the table up to the row whose service name is
  \<^verbatim>\<open>NULL\<close> and return the first row of the port. The table is a parameter, so the
  function serves any table; \<open>udp_probes\<close> is the one of the program. (A table
  without a terminating row would be read past its end in C; the model stops.)
\<close>

fun get_probe_for_port :: "udp_probe_t list \<Rightarrow> int \<Rightarrow> udp_probe_t option" where
  "get_probe_for_port [] port = None"
| "get_probe_for_port (p # ps) port =
     (if service_name p = None then None
      else if probe_port p = port then Some p
      else get_probe_for_port ps port)"

section \<open>State, effects and the environment\<close>

text \<open>
  \<^verbatim>\<open>scan_stats_t\<close>, the global \<^verbatim>\<open>stats\<close>. The two \<^verbatim>\<open>struct timeval\<close> fields
  hold wall-clock times and are only read to print the elapsed time; they are left out.
\<close>

record scan_stats_t =
  total_ports :: int
  open_ports :: int
  closed_ports :: int
  filtered_ports :: int

text \<open>
  Every system call and every printed line of the programs is recorded, in order, as an
  event. One constructor stands for one call site; its arguments are the arguments of
  the call that matter to the behaviour.
\<close>

datatype event =
    Sys_socket_dgram \<comment> \<open>\<^verbatim>\<open>socket(AF_INET, SOCK_DGRAM, IPPROTO_UDP)\<close>\<close>
  | Sys_socket_raw \<comment> \<open>\<^verbatim>\<open>socket(AF_INET, SOCK_RAW, IPPROTO_ICMP)\<close>\<close>
  | Sys_sendto string int "byte list" \<comment> \<open>target address, destination port, bytes sent\<close>
  | Sys_select nat nat \<comment> \<open>one wait on both sockets, with \<^verbatim>\<open>tv_sec\<close> and \<^verbatim>\<open>tv_usec\<close>\<close>
  | Sys_recvfrom_udp
  | Sys_recvfrom_icmp
  | Sys_close_udp
  | Sys_close_icmp
  | Sys_usleep nat
  | Perror string \<comment> \<open>\<^verbatim>\<open>perror(s)\<close>, on standard error\<close>
  | Print_open_filtered int string
      \<comment> \<open>\<^verbatim>\<open>[OPEN|FILTERED] Port %d/udp %s (no response)\<close>\<close>
  | Print_open int string int
      \<comment> \<open>\<^verbatim>\<open>[OPEN] Port %d/udp %s (service responded: %zd bytes)\<close>\<close>
  | Print_closed int
      \<comment> \<open>\<^verbatim>\<open>[CLOSED] Port %d/udp (ICMP port unreachable)\<close>\<close>
  | Print_filtered int byte byte
      \<comment> \<open>\<^verbatim>\<open>[FILTERED] Port %d/udp (ICMP unreachable type %d, code %d)\<close>\<close>
  | Print_open_filtered_ext int string string
      \<comment> \<open>\<^verbatim>\<open>[OPEN|FILTERED] Port %d/udp %s (%s)\<close>\<close>
  | Print_open_ext int string string int
      \<comment> \<open>\<^verbatim>\<open>[OPEN] Port %d/udp %s (%s) - %zd bytes\<close>\<close>
  | Print_closed_ext int
      \<comment> \<open>\<^verbatim>\<open>[CLOSED] Port %d/udp\<close>\<close>
  | Print_filtered_ext int byte
      \<comment> \<open>\<^verbatim>\<open>[FILTERED] Port %d/udp (ICMP code %d)\<close>\<close>
  | Print_usage "string option" \<comment> \<open>\<^verbatim>\<open>print_usage(argv[0])\<close>\<close>
  | Print_usage_ext "string option" \<comment> \<open>the usage text of the extended program\<close>
  | Eprint_invalid_range \<comment> \<open>\<^verbatim>\<open>Error: Invalid port range (1-65535)\<close>, on standard error\<close>
  | Eprint_not_root \<comment> \<open>\<^verbatim>\<open>Warning: Not running as root. ...\<close>, on standard error\<close>
  | Print_banner string int int \<comment> \<open>the three starting lines: target, first and last port\<close>
  | Print_banner_ext string int int \<comment> \<open>the starting lines of the extended program\<close>
  | Print_statistics int int int int
      \<comment> \<open>total, open, closed and filtered counts of \<^verbatim>\<open>print_statistics\<close>\<close>

record scan_state =
  stats :: scan_stats_t
  trace :: "event list"

definition init_state :: scan_state where
  "init_state =
     \<lparr>stats = \<lparr>total_ports = 0, open_ports = 0, closed_ports = 0, filtered_ports = 0\<rparr>,
      trace = []\<rparr>"

definition emit :: "event \<Rightarrow> scan_state \<Rightarrow> scan_state" where
  "emit e st = st\<lparr>trace := trace st @ [e]\<rparr>"

text \<open>
  What one call of \<^verbatim>\<open>recvfrom\<close> finds: an error (return value \<open>-1\<close>, buffer
  untouched) or a datagram, of which at most \<^verbatim>\<open>sizeof(buffer)\<close> bytes are copied to
  the front of the buffer and counted.
\<close>

datatype recv_result = Recv_error | Recv_data "byte list"

fun recv_n :: "recv_result \<Rightarrow> int" where
  "recv_n Recv_error = -1"
| "recv_n (Recv_data d) = int (min (length d) MAX_PACKET_SIZE)"

fun recv_into :: "(nat \<Rightarrow> byte) \<Rightarrow> recv_result \<Rightarrow> (nat \<Rightarrow> byte)" where
  "recv_into buf Recv_error = buf"
| "recv_into buf (Recv_data d) =
     (\<lambda>i. if i < min (length d) MAX_PACKET_SIZE then d ! i else buf i)"

text \<open>
  The answers of the operating system during one attempt on a port (one pass of the
  retry loop): the return value of \<^verbatim>\<open>sendto\<close>, the return value of \<^verbatim>\<open>select\<close>
  with the two bits of \<^verbatim>\<open>readfds\<close> it leaves, what each \<^verbatim>\<open>recvfrom\<close> finds, and
  the bytes that lie in the uninitialised array \<^verbatim>\<open>buffer\<close> on entry.
\<close>

record attempt_env =
  sendto_ret :: int
  select_ret :: int
  udp_isset :: bool
  icmp_isset :: bool
  udp_recv :: recv_result
  icmp_recv :: recv_result
  stack_buffer :: "nat \<Rightarrow> byte"

text \<open>The answers for one port: the two \<^verbatim>\<open>socket\<close> calls and each attempt.\<close>

record port_env =
  udp_socket_ret :: int
  icmp_socket_ret :: int
  attempts :: "nat \<Rightarrow> attempt_env"

text \<open>
  The answers for a whole run: the C library's \<^verbatim>\<open>atoi\<close>, the effective user id and
  the answers for each port.
\<close>

record world =
  atoi :: "string \<Rightarrow> int"
  geteuid :: nat
  port_envs :: "int \<Rightarrow> port_env"

section \<open>\<^verbatim>\<open>udp_scanner.c\<close>\<close>

text \<open>
  \<^verbatim>\<open>send_udp_probe\<close> (lines 224-249): one \<^verbatim>\<open>sendto\<close>, of the payload or of zero
  bytes; a negative return value is reported with \<^verbatim>\<open>perror\<close> and gives \<open>-1\<close>.
\<close>

definition send_udp_probe ::
  "attempt_env \<Rightarrow> string \<Rightarrow> int \<Rightarrow> byte list \<Rightarrow> nat \<Rightarrow> scan_state \<Rightarrow> int \<times> scan_state" where
  "send_udp_probe a target_ip port pl pl_len st =
     (let st1 = (if pl_len > 0 then emit (Sys_sendto target_ip port (take pl_len pl)) st
                 else emit (Sys_sendto target_ip port []) st);
          ret = sendto_ret a
      in if ret < 0 then (-1, emit (Perror ''sendto'') st1) else (0, st1))"

text \<open>\<^verbatim>\<open>service_name ? service_name : "unknown"\<close>\<close>

definition or_unknown :: "string option \<Rightarrow> string" where
  "or_unknown s = (case s of Some n \<Rightarrow> n | None \<Rightarrow> ''unknown'')"

definition inc_open :: "scan_state \<Rightarrow> scan_state" where
  "inc_open st = st\<lparr>stats := (stats st)\<lparr>open_ports := open_ports (stats st) + 1\<rparr>\<rparr>"

definition inc_closed :: "scan_state \<Rightarrow> scan_state" where
  "inc_closed st = st\<lparr>stats := (stats st)\<lparr>closed_ports := closed_ports (stats st) + 1\<rparr>\<rparr>"

definition inc_filtered :: "scan_state \<Rightarrow> scan_state" where
  "inc_filtered st = st\<lparr>stats := (stats st)\<lparr>filtered_ports := filtered_ports (stats st) + 1\<rparr>\<rparr>"

definition inc_total :: "scan_state \<Rightarrow> scan_state" where
  "inc_total st = st\<lparr>stats := (stats st)\<lparr>total_ports := total_ports (stats st) + 1\<rparr>\<rparr>"

text \<open>
  The ICMP header inside \<^verbatim>\<open>buffer\<close>: \<^verbatim>\<open>ip_hl\<close> is the low nibble of the first byte
  of the IP header, the ICMP header starts \<^verbatim>\<open>ip_hl << 2\<close> bytes in, its first byte is
  \<^verbatim>\<open>icmp_type\<close> and its second \<^verbatim>\<open>icmp_code\<close>. The offset is at most 60, inside the
  buffer whatever the length of the datagram.
\<close>

definition ip_hl :: "(nat \<Rightarrow> byte) \<Rightarrow> nat" where
  "ip_hl buf = unat (buf 0 AND 0x0F)"

definition icmp_type :: "(nat \<Rightarrow> byte) \<Rightarrow> byte" where
  "icmp_type buf = buf (push_bit 2 (ip_hl buf))"

definition icmp_code :: "(nat \<Rightarrow> byte) \<Rightarrow> byte" where
  "icmp_code buf = buf (push_bit 2 (ip_hl buf) + 1)"

text \<open>
  \<^verbatim>\<open>receive_response\<close>, the part after the UDP check (lines 295-318): read the raw
  socket if it is ready and classify an ICMP "destination unreachable"; everything
  else falls through to \<^verbatim>\<open>return -1\<close>.
\<close>

definition receive_icmp ::
  "attempt_env \<Rightarrow> (nat \<Rightarrow> byte) \<Rightarrow> int \<Rightarrow> scan_state \<Rightarrow> int \<times> scan_state" where
  "receive_icmp a buf port st =
     (if icmp_isset a then
        (let st1 = emit Sys_recvfrom_icmp st;
             n = recv_n (icmp_recv a);
             buf1 = recv_into buf (icmp_recv a)
         in if n > 0 then
              (if icmp_type buf1 = ICMP_UNREACH then
                 (if icmp_code buf1 = ICMP_UNREACH_PORT
                  then (2, inc_closed (emit (Print_closed port) st1))
                  else (3, inc_filtered
                             (emit (Print_filtered port (icmp_type buf1) (icmp_code buf1)) st1)))
               else (-1, st1))
            else (-1, st1))
      else (-1, st))"

text \<open>
  \<^verbatim>\<open>receive_response\<close> (lines 252-319): one \<^verbatim>\<open>select\<close> on both sockets with a
  timeout of \<^verbatim>\<open>TIMEOUT_SEC\<close> seconds. Return values: \<open>-1\<close> no verdict, \<open>0\<close> open,
  \<open>1\<close> open|filtered, \<open>2\<close> closed, \<open>3\<close> filtered.
\<close>

definition receive_response ::
  "attempt_env \<Rightarrow> int \<Rightarrow> string option \<Rightarrow> scan_state \<Rightarrow> int \<times> scan_state" where
  "receive_response a port svc st =
     (let st1 = emit (Sys_select TIMEOUT_SEC TIMEOUT_USEC) st;
          ret = select_ret a
      in if ret < 0 then (-1, emit (Perror ''select'') st1)
         else if ret = 0 then
           (1, inc_filtered (emit (Print_open_filtered port (or_unknown svc)) st1))
         else if udp_isset a then
           (let st2 = emit Sys_recvfrom_udp st1;
                n = recv_n (udp_recv a);
                buf1 = recv_into (stack_buffer a) (udp_recv a)
            in if n > 0 then (0, inc_open (emit (Print_open port (or_unknown svc) n) st2))
               else receive_icmp a buf1 port st2)
         else receive_icmp a (stack_buffer a) port st1)"

text \<open>
  The retry loop of \<^verbatim>\<open>scan_udp_port\<close> (lines 356-370), from attempt \<open>i\<close> on. \<open>Inl\<close>
  is the \<^verbatim>\<open>return\<close> inside the loop after a failed send (both sockets closed there);
  \<open>Inr\<close> is leaving the loop, by \<^verbatim>\<open>break\<close> or by exhausting \<^verbatim>\<open>MAX_RETRIES\<close>.
\<close>

function retry_loop ::
  "(nat \<Rightarrow> attempt_env) \<Rightarrow> string \<Rightarrow> int \<Rightarrow> byte list \<Rightarrow> nat \<Rightarrow> string option \<Rightarrow> nat
     \<Rightarrow> scan_state \<Rightarrow> scan_state + scan_state" where
  "retry_loop att target_ip port pl pl_len svc i st =
     (if i < MAX_RETRIES then
        (let (r, st1) = send_udp_probe (att i) target_ip port pl pl_len st
         in if r < 0 then Inl (emit Sys_close_icmp (emit Sys_close_udp st1))
            else
              (let (result, st2) = receive_response (att i) port svc st1
               in if result = 0 \<or> result = 2 then Inr st2
                  else retry_loop att target_ip port pl pl_len svc (i + 1) st2))
      else Inr st)"
  by pat_completeness auto
termination
  by (relation "measure (\<lambda>(att, target_ip, port, pl, pl_len, svc, i, st). MAX_RETRIES - i)") auto

declare retry_loop.simps [simp del]

text \<open>
  \<^verbatim>\<open>scan_udp_port\<close> (lines 322-374): create both sockets (giving up on the port when
  either fails), pick the probe of the port or the empty probe, run the retry loop,
  close the sockets.
\<close>

definition scan_udp_port ::
  "udp_probe_t list \<Rightarrow> port_env \<Rightarrow> string \<Rightarrow> int \<Rightarrow> scan_state \<Rightarrow> scan_state" where
  "scan_udp_port probes pe target_ip port st =
     (let st1 = emit Sys_socket_dgram st
      in if udp_socket_ret pe < 0 then emit (Perror ''UDP socket creation failed'') st1
         else
           (let st2 = emit Sys_socket_raw st1
            in if icmp_socket_ret pe < 0
               then emit Sys_close_udp
                      (emit (Perror ''ICMP socket creation failed (need root)'') st2)
               else
                 (let (pl, pl_len, svc) =
                        (case get_probe_for_port probes port of
                           Some probe \<Rightarrow> (payload probe, payload_len probe, service_name probe)
                         | None \<Rightarrow> (empty_probe, 0, None))
                  in case retry_loop (attempts pe) target_ip port pl pl_len svc 0 st2 of
                       Inl st3 \<Rightarrow> st3
                     | Inr st3 \<Rightarrow> emit Sys_close_icmp (emit Sys_close_udp st3))))"

text \<open>
  The port loop of \<^verbatim>\<open>main\<close> (lines 438-444): scan the port, count it, sleep 10 ms.
\<close>

function port_loop ::
  "udp_probe_t list \<Rightarrow> (int \<Rightarrow> port_env) \<Rightarrow> string \<Rightarrow> int \<Rightarrow> int \<Rightarrow> scan_state \<Rightarrow> scan_state" where
  "port_loop probes envs target_ip port end_port st =
     (if port \<le> end_port then
        port_loop probes envs target_ip (port + 1) end_port
          (emit (Sys_usleep 10000)
             (inc_total (scan_udp_port probes (envs port) target_ip port st)))
      else st)"
  by pat_completeness auto
termination
  by (relation "measure (\<lambda>(probes, envs, target_ip, port, end_port, st). nat (end_port + 1 - port))")
     auto

declare port_loop.simps [simp del]

text \<open>
  \<^verbatim>\<open>print_statistics\<close> (lines 388-402) prints the four counters; the elapsed time and
  the rate it also prints are wall-clock floating-point values and are left out.
\<close>

definition print_statistics :: "scan_state \<Rightarrow> scan_state" where
  "print_statistics st =
     emit (Print_statistics (total_ports (stats st)) (open_ports (stats st))
             (closed_ports (stats st)) (filtered_ports (stats st))) st"

text \<open>
  \<^verbatim>\<open>main\<close> (lines 404-449) on the argument vector \<open>argv\<close> (\<^verbatim>\<open>argc\<close> is its
  length), returning the exit code and the final state.
\<close>

definition main :: "world \<Rightarrow> udp_probe_t list \<Rightarrow> string list \<Rightarrow> int \<times> scan_state" where
  "main w probes argv =
     (if length argv \<noteq> 4 then
        (1, emit (Print_usage (case argv of [] \<Rightarrow> None | a # _ \<Rightarrow> Some a)) init_state)
      else
        (let target_ip = argv ! 1;
             start_port = atoi w (argv ! 2);
             end_port = atoi w (argv ! 3)
         in if start_port < 1 \<or> start_port > 65535 \<or> end_port < 1 \<or> end_port > 65535
               \<or> start_port > end_port
            then (1, emit Eprint_invalid_range init_state)
            else
              (let st1 = (if geteuid w \<noteq> 0 then emit Eprint_not_root init_state
                          else init_state);
                   st2 = emit (Print_banner target_ip start_port end_port) st1;
                   st3 = port_loop probes (port_envs w) target_ip start_port end_port st2
               in (0, print_statistics st3))))"

section \<open>\<^verbatim>\<open>udp_scanner_extended.c\<close>\<close>

text \<open>
  \<^verbatim>\<open>udp_probe_t\<close> of the extended program: the fifth column is an RFC reference,
  which the output lines show. Its table of some fifty rows (lines 349-400) is a
  parameter of the functions below.
\<close>

record udp_probe_ext_t =
  ext_port :: int
  ext_service_name :: "string option"
  ext_payload :: "byte list"
  ext_payload_len :: nat
  rfc_reference :: "string option"

fun get_probe_for_port_ext :: "udp_probe_ext_t list \<Rightarrow> int \<Rightarrow> udp_probe_ext_t option" where
  "get_probe_for_port_ext [] port = None"
| "get_probe_for_port_ext (p # ps) port =
     (if ext_service_name p = None then None
      else if ext_port p = port then Some p
      else get_probe_for_port_ext ps port)"

text \<open>\<^verbatim>\<open>send_udp_probe\<close> (lines 441-464): as above, without \<^verbatim>\<open>perror\<close>.\<close>

definition send_udp_probe_ext ::
  "attempt_env \<Rightarrow> string \<Rightarrow> int \<Rightarrow> byte list \<Rightarrow> nat \<Rightarrow> scan_state \<Rightarrow> int \<times> scan_state" where
  "send_udp_probe_ext a target_ip port pl pl_len st =
     (let st1 = (if pl_len > 0 then emit (Sys_sendto target_ip port (take pl_len pl)) st
                 else emit (Sys_sendto target_ip port []) st);
          ret = sendto_ret a
      in if ret < 0 then (-1, st1) else (0, st1))"

text \<open>\<^verbatim>\<open>rfc ? rfc : ""\<close>\<close>

definition or_empty :: "string option \<Rightarrow> string" where
  "or_empty s = (case s of Some n \<Rightarrow> n | None \<Rightarrow> [])"

text \<open>\<^verbatim>\<open>receive_response\<close>, the part after the UDP check (lines 510-533).\<close>

definition receive_icmp_ext ::
  "attempt_env \<Rightarrow> (nat \<Rightarrow> byte) \<Rightarrow> int \<Rightarrow> scan_state \<Rightarrow> int \<times> scan_state" where
  "receive_icmp_ext a buf port st =
     (if icmp_isset a then
        (let st1 = emit Sys_recvfrom_icmp st;
             n = recv_n (icmp_recv a);
             buf1 = recv_into buf (icmp_recv a)
         in if n > 0 then
              (if icmp_type buf1 = ICMP_UNREACH then
                 (if icmp_code buf1 = ICMP_UNREACH_PORT
                  then (2, inc_closed (emit (Print_closed_ext port) st1))
                  else (3, inc_filtered (emit (Print_filtered_ext port (icmp_code buf1)) st1)))
               else (-1, st1))
            else (-1, st1))
      else (-1, st))"

text \<open>\<^verbatim>\<open>receive_response\<close> (lines 467-534).\<close>

definition receive_response_ext ::
  "attempt_env \<Rightarrow> int \<Rightarrow> string option \<Rightarrow> string option \<Rightarrow> scan_state \<Rightarrow> int \<times> scan_state" where
  "receive_response_ext a port svc rfc st =
     (let st1 = emit (Sys_select TIMEOUT_SEC TIMEOUT_USEC) st;
          ret = select_ret a
      in if ret < 0 then (-1, st1)
         else if ret = 0 then
           (1, inc_filtered
                 (emit (Print_open_filtered_ext port (or_unknown svc) (or_empty rfc)) st1))
         else if udp_isset a then
           (let st2 = emit Sys_recvfrom_udp st1;
                n = recv_n (udp_recv a);
                buf1 = recv_into (stack_buffer a) (udp_recv a)
            in if n > 0
               then (0, inc_open
                          (emit (Print_open_ext port (or_unknown svc) (or_empty rfc) n) st2))
               else receive_icmp_ext a buf1 port st2)
         else receive_icmp_ext a (stack_buffer a) port st1)"

text \<open>The retry loop of \<^verbatim>\<open>scan_udp_port\<close> (lines 567-579).\<close>

function retry_loop_ext ::
  "(nat \<Rightarrow> attempt_env) \<Rightarrow> string \<Rightarrow> int \<Rightarrow> byte list \<Rightarrow> nat \<Rightarrow> string option
     \<Rightarrow> string option \<Rightarrow> nat \<Rightarrow> scan_state \<Rightarrow> scan_state + scan_state" where
  "retry_loop_ext att target_ip port pl pl_len svc rfc i st =
     (if i < MAX_RETRIES then
        (let (r, st1) = send_udp_probe_ext (att i) target_ip port pl pl_len st
         in if r < 0 then Inl (emit Sys_close_icmp (emit Sys_close_udp st1))
            else
              (let (result, st2) = receive_response_ext (att i) port svc rfc st1
               in if result = 0 \<or> result = 2 then Inr st2
                  else retry_loop_ext att target_ip port pl pl_len svc rfc (i + 1) st2))
      else Inr st)"
  by pat_completeness auto
termination
  by (relation
        "measure (\<lambda>(att, target_ip, port, pl, pl_len, svc, rfc, i, st). MAX_RETRIES - i)")
     auto

declare retry_loop_ext.simps [simp del]

text \<open>\<^verbatim>\<open>scan_udp_port\<close> (lines 537-583): no \<^verbatim>\<open>perror\<close> on a failed socket.\<close>

definition scan_udp_port_ext ::
  "udp_probe_ext_t list \<Rightarrow> port_env \<Rightarrow> string \<Rightarrow> int \<Rightarrow> scan_state \<Rightarrow> scan_state" where
  "scan_udp_port_ext probes pe target_ip port st =
     (let st1 = emit Sys_socket_dgram st
      in if udp_socket_ret pe < 0 then st1
         else
           (let st2 = emit Sys_socket_raw st1
            in if icmp_socket_ret pe < 0 then emit Sys_close_udp st2
               else
                 (let (pl, pl_len, svc, rfc) =
                        (case get_probe_for_port_ext probes port of
                           Some probe \<Rightarrow>
                             (ext_payload probe, ext_payload_len probe,
                              ext_service_name probe, rfc_reference probe)
                         | None \<Rightarrow> (empty_probe, 0, None, None))
                  in case retry_loop_ext (attempts pe) target_ip port pl pl_len svc rfc 0 st2 of
                       Inl st3 \<Rightarrow> st3
                     | Inr st3 \<Rightarrow> emit Sys_close_icmp (emit Sys_close_udp st3))))"

text \<open>The port loop of \<^verbatim>\<open>main\<close> (lines 644-648).\<close>

function port_loop_ext ::
  "udp_probe_ext_t list \<Rightarrow> (int \<Rightarrow> port_env) \<Rightarrow> string \<Rightarrow> int \<Rightarrow> int \<Rightarrow> scan_state
     \<Rightarrow> scan_state" where
  "port_loop_ext probes envs target_ip port end_port st =
     (if port \<le> end_port then
        port_loop_ext probes envs target_ip (port + 1) end_port
          (emit (Sys_usleep 10000)
             (inc_total (scan_udp_port_ext probes (envs port) target_ip port st)))
      else st)"
  by pat_completeness auto
termination
  by (relation "measure (\<lambda>(probes, envs, target_ip, port, end_port, st). nat (end_port + 1 - port))")
     auto

declare port_loop_ext.simps [simp del]

text \<open>
  \<^verbatim>\<open>main\<close> (lines 612-653); \<^verbatim>\<open>print_statistics\<close> (lines 596-610) is the same
  function as in \<^verbatim>\<open>udp_scanner.c\<close>.
\<close>

definition main_ext :: "world \<Rightarrow> udp_probe_ext_t list \<Rightarrow> string list \<Rightarrow> int \<times> scan_state" where
  "main_ext w probes argv =
     (if length argv \<noteq> 4 then
        (1, emit (Print_usage_ext (case argv of [] \<Rightarrow> None | a # _ \<Rightarrow> Some a)) init_state)
      else
        (let target_ip = argv ! 1;
             start_port = atoi w (argv ! 2);
             end_port = atoi w (argv ! 3)
         in if start_port < 1 \<or> start_port > 65535 \<or> end_port < 1 \<or> end_port > 65535
               \<or> start_port > end_port
            then (1, emit Eprint_invalid_range init_state)
            else
              (let st1 = (if geteuid w \<noteq> 0 then emit Eprint_not_root init_state
                          else init_state);
                   st2 = emit (Print_banner_ext target_ip start_port end_port) st1;
                   st3 = port_loop_ext probes (port_envs w) target_ip start_port end_port st2
               in (0, print_statistics st3))))"

section \<open>Vocabulary of the properties\<close>

text \<open>
  The verdict that a return value of \<^verbatim>\<open>receive_response\<close> stands for, read off
  the branch that returns it; \<open>-1\<close> stands for none.
\<close>

datatype verdict = Open | Closed | OpenOrFiltered | Filtered

definition verdict_of :: "int \<Rightarrow> verdict option" where
  "verdict_of r =
     (if r = 0 then Some Open
      else if r = 1 then Some OpenOrFiltered
      else if r = 2 then Some Closed
      else if r = 3 then Some Filtered
      else None)"

text \<open>
  The counter that a verdict is counted under: Open under \<open>open_ports\<close>, Closed under
  \<open>closed_ports\<close>, OpenOrFiltered and Filtered under \<open>filtered_ports\<close>; no
  verdict, no counter.
\<close>

definition count_verdict :: "verdict option \<Rightarrow> scan_stats_t \<Rightarrow> scan_stats_t" where
  "count_verdict v s =
     (case v of
        Some Open \<Rightarrow> s\<lparr>open_ports := open_ports s + 1\<rparr>
      | Some Closed \<Rightarrow> s\<lparr>closed_ports := closed_ports s + 1\<rparr>
      | Some OpenOrFiltered \<Rightarrow> s\<lparr>filtered_ports := filtered_ports s + 1\<rparr>
      | Some Filtered \<Rightarrow> s\<lparr>filtered_ports := filtered_ports s + 1\<rparr>
      | None \<Rightarrow> s)"

text \<open>The return value of the classifier for the answers of one attempt.\<close>

definition attempt_result :: "attempt_env \<Rightarrow> int" where
  "attempt_result a = fst (receive_response a 0 None init_state)"

definition attempt_result_ext :: "attempt_env \<Rightarrow> int" where
  "attempt_result_ext a = fst (receive_response_ext a 0 None None init_state)"

text \<open>
  Projections of a trace: the probes sent, the sockets opened, the waits, and the lines
  printed on standard output (everything but the system calls, \<^verbatim>\<open>perror\<close> and the
  two messages written to standard error).
\<close>

fun is_sendto :: "event \<Rightarrow> bool" where
  "is_sendto (Sys_sendto t p b) = True"
| "is_sendto e = False"

fun is_socket :: "event \<Rightarrow> bool" where
  "is_socket Sys_socket_dgram = True"
| "is_socket Sys_socket_raw = True"
| "is_socket e = False"

fun is_select :: "event \<Rightarrow> bool" where
  "is_select (Sys_select s u) = True"
| "is_select e = False"

fun is_stdout :: "event \<Rightarrow> bool" where
  "is_stdout Sys_socket_dgram = False"
| "is_stdout Sys_socket_raw = False"
| "is_stdout (Sys_sendto t p b) = False"
| "is_stdout (Sys_select s u) = False"
| "is_stdout Sys_recvfrom_udp = False"
| "is_stdout Sys_recvfrom_icmp = False"
| "is_stdout Sys_close_udp = False"
| "is_stdout Sys_close_icmp = False"
| "is_stdout (Sys_usleep n) = False"
| "is_stdout (Perror s) = False"
| "is_stdout Eprint_invalid_range = False"
| "is_stdout Eprint_not_root = False"
| "is_stdout e = True"

definition sends :: "scan_state \<Rightarrow> event list" where
  "sends st = filter is_sendto (trace st)"

definition sockets :: "scan_state \<Rightarrow> event list" where
  "sockets st = filter is_socket (trace st)"

definition selects :: "scan_state \<Rightarrow> event list" where
  "selects st = filter is_select (trace st)"

definition stdout_lines :: "scan_state \<Rightarrow> event list" where
  "stdout_lines st = filter is_stdout (trace st)"

text \<open>The bytes that \<^verbatim>\<open>send_udp_probe\<close> hands to \<^verbatim>\<open>sendto\<close>.\<close>

definition probe_bytes :: "byte list \<Rightarrow> nat \<Rightarrow> byte list" where
  "probe_bytes pl pl_len = (if 0 < pl_len then take pl_len pl else [])"

text \<open>The state in which the retry loop is left, by \<^verbatim>\<open>return\<close> or otherwise.\<close>

definition loop_state :: "scan_state + scan_state \<Rightarrow> scan_state" where
  "loop_state r = (case r of Inl st \<Rightarrow> st | Inr st \<Rightarrow> st)"

text \<open>One pass of the retry loop whose send succeeds: the send, then the classification.\<close>

definition one_attempt ::
  "attempt_env \<Rightarrow> string \<Rightarrow> int \<Rightarrow> byte list \<Rightarrow> nat \<Rightarrow> string option \<Rightarrow> scan_state
     \<Rightarrow> scan_state" where
  "one_attempt a target_ip port pl pl_len svc st =
     snd (receive_response a port svc (snd (send_udp_probe a target_ip port pl pl_len st)))"

definition one_attempt_ext ::
  "attempt_env \<Rightarrow> string \<Rightarrow> int \<Rightarrow> byte list \<Rightarrow> nat \<Rightarrow> string option \<Rightarrow> string option
     \<Rightarrow> scan_state \<Rightarrow> scan_state" where
  "one_attempt_ext a target_ip port pl pl_len svc rfc st =
     snd (receive_response_ext a port svc rfc
            (snd (send_udp_probe_ext a target_ip port pl pl_len st)))"

text \<open>
  Where the classifier stands when it turns to the raw socket: after the wait, and after
  the read of the UDP socket if that was ready; and what lies in \<^verbatim>\<open>buffer\<close> then.
\<close>

definition pre_icmp :: "attempt_env \<Rightarrow> scan_state \<Rightarrow> scan_state" where
  "pre_icmp a st =
     (if udp_isset a then emit Sys_recvfrom_udp (emit (Sys_select TIMEOUT_SEC TIMEOUT_USEC) st)
      else emit (Sys_select TIMEOUT_SEC TIMEOUT_USEC) st)"

definition pre_buf :: "attempt_env \<Rightarrow> nat \<Rightarrow> byte" where
  "pre_buf a = (if udp_isset a then recv_into (stack_buffer a) (udp_recv a) else stack_buffer a)"

text \<open>
  The ICMP type and code of a datagram as the raw socket delivers it (IP header first):
  the two bytes at four times the low nibble of the first byte, when the datagram is
  long enough to hold them.
\<close>

definition dgram_icmp_type :: "byte list \<Rightarrow> byte option" where
  "dgram_icmp_type d =
     (if d \<noteq> [] \<and> 4 * unat (d ! 0 AND 0x0F) < length d
      then Some (d ! (4 * unat (d ! 0 AND 0x0F))) else None)"

definition dgram_icmp_code :: "byte list \<Rightarrow> byte option" where
  "dgram_icmp_code d =
     (if d \<noteq> [] \<and> 4 * unat (d ! 0 AND 0x0F) + 1 < length d
      then Some (d ! (4 * unat (d ! 0 AND 0x0F) + 1)) else None)"

text \<open>The state of \<^verbatim>\<open>main\<close> after the privilege check, before the first line is printed.\<close>

definition start_state :: "world \<Rightarrow> scan_state" where
  "start_state w = (if geteuid w \<noteq> 0 then emit Eprint_not_root init_state else init_state)"

text \<open>
  A port that replies at once: both sockets open, the first send succeeds, and the wait
  returns with a UDP datagram of positive length. A port that stays silent: both
  sockets open, both sends succeed, and both waits time out.
\<close>

definition port_replies :: "port_env \<Rightarrow> bool" where
  "port_replies pe =
     (0 \<le> udp_socket_ret pe \<and> 0 \<le> icmp_socket_ret pe
      \<and> 0 \<le> sendto_ret (attempts pe 0) \<and> 0 < select_ret (attempts pe 0)
      \<and> udp_isset (attempts pe 0) \<and> 0 < recv_n (udp_recv (attempts pe 0)))"

definition port_times_out :: "port_env \<Rightarrow> bool" where
  "port_times_out pe =
     (0 \<le> udp_socket_ret pe \<and> 0 \<le> icmp_socket_ret pe
      \<and> 0 \<le> sendto_ret (attempts pe 0) \<and> select_ret (attempts pe 0) = 0
      \<and> 0 \<le> sendto_ret (attempts pe 1) \<and> select_ret (attempts pe 1) = 0)"

section \<open>Example environments\<close>

text \<open>
  A 28-byte datagram off the raw socket: a 20-byte IP header (version 4, header length
  5 words, protocol 1, from 10.0.0.2 to 10.0.0.1) and an 8-byte ICMP header of the
  given type and code.
\<close>

definition icmp_dgram :: "byte \<Rightarrow> byte \<Rightarrow> byte list" where
  "icmp_dgram t c =
     [0x45, 0, 0, 28, 0, 0, 0, 0, 64, 1, 0, 0, 10, 0, 0, 2, 10, 0, 0, 1,
      t, c, 0, 0, 0, 0, 0, 0]"

text \<open>
  Attempts on which the send succeeds and then: nothing arrives before the timeout; a
  UDP reply of five bytes arrives; a UDP reply of no bytes arrives; an ICMP datagram of
  the given type and code arrives; \<^verbatim>\<open>select\<close> fails.
\<close>

definition env_timeout :: attempt_env where
  "env_timeout =
     \<lparr>sendto_ret = 0, select_ret = 0, udp_isset = False, icmp_isset = False,
      udp_recv = Recv_error, icmp_recv = Recv_error, stack_buffer = (\<lambda>i. 0)\<rparr>"

definition env_udp_reply :: attempt_env where
  "env_udp_reply =
     \<lparr>sendto_ret = 0, select_ret = 1, udp_isset = True, icmp_isset = False,
      udp_recv = Recv_data [1, 2, 3, 4, 5], icmp_recv = Recv_error,
      stack_buffer = (\<lambda>i. 0)\<rparr>"

definition env_udp_empty :: attempt_env where
  "env_udp_empty =
     \<lparr>sendto_ret = 0, select_ret = 1, udp_isset = True, icmp_isset = False,
      udp_recv = Recv_data [], icmp_recv = Recv_error, stack_buffer = (\<lambda>i. 0)\<rparr>"

definition env_icmp :: "byte \<Rightarrow> byte \<Rightarrow> attempt_env" where
  "env_icmp t c =
     \<lparr>sendto_ret = 0, select_ret = 1, udp_isset = False, icmp_isset = True,
      udp_recv = Recv_error, icmp_recv = Recv_data (icmp_dgram t c),
      stack_buffer = (\<lambda>i. 0)\<rparr>"

definition env_select_error :: attempt_env where
  "env_select_error =
     \<lparr>sendto_ret = 0, select_ret = -1, udp_isset = False, icmp_isset = False,
      udp_recv = Recv_error, icmp_recv = Recv_error, stack_buffer = (\<lambda>i. 0)\<rparr>"

text \<open>
  A port on which both sockets open and every attempt gets the same answers, and the
  same port when the raw socket is refused.
\<close>

definition port_with :: "attempt_env \<Rightarrow> port_env" where
  "port_with a = \<lparr>udp_socket_ret = 3, icmp_socket_ret = 4, attempts = (\<lambda>i. a)\<rparr>"

definition port_no_raw :: "attempt_env \<Rightarrow> port_env" where
  "port_no_raw a = \<lparr>udp_socket_ret = 3, icmp_socket_ret = -1, attempts = (\<lambda>i. a)\<rparr>"

text \<open>An \<^verbatim>\<open>atoi\<close> for strings of decimal digits: it reads digits up to the first other character.\<close>

fun atoi_digits :: "int \<Rightarrow> string \<Rightarrow> int" where
  "atoi_digits acc [] = acc"
| "atoi_digits acc (c # cs) =
     (if 48 \<le> (of_char c :: nat) \<and> (of_char c :: nat) \<le> 57
      then atoi_digits (10 * acc + (int (of_char c) - 48)) cs
      else acc)"

text \<open>
  A run as root against a target whose port 53 replies and whose other ports stay
  silent; and a run without privilege, where no raw socket can be opened, against a
  target whose every port would reply.
\<close>

definition world_53_replies :: world where
  "world_53_replies =
     \<lparr>atoi = atoi_digits 0, geteuid = 0,
      port_envs = (\<lambda>p. if p = 53 then port_with env_udp_reply else port_with env_timeout)\<rparr>"

definition world_unprivileged :: world where
  "world_unprivileged =
     \<lparr>atoi = atoi_digits 0, geteuid = 1000,
      port_envs = (\<lambda>p. port_no_raw env_udp_reply)\<rparr>"

definition argv_53_54 :: "string list" where
  "argv_53_54 = [''./udp_scanner'', ''10.0.0.1'', ''53'', ''54'']"

text \<open>
  A run as root over port 53 alone, against a target from which the first probe draws
  an ICMP "host unreachable" (type 3, code 1) and the second probe draws nothing.
\<close>

definition port_unreachable_then_silent :: port_env where
  "port_unreachable_then_silent =
     \<lparr>udp_socket_ret = 3, icmp_socket_ret = 4,
      attempts = (\<lambda>i. if i = 0 then env_icmp 3 1 else env_timeout)\<rparr>"

definition world_unreachable_then_silent :: world where
  "world_unreachable_then_silent =
     \<lparr>atoi = atoi_digits 0, geteuid = 0, port_envs = (\<lambda>p. port_unreachable_then_silent)\<rparr>"

definition argv_53_53 :: "string list" where
  "argv_53_53 = [''./udp_scanner'', ''10.0.0.1'', ''53'', ''53'']"

section \<open>Projections and buffers\<close>

lemma stats_emit: "stats (emit e st) = stats st"
  by (simp add: emit_def)

lemma trace_emit: "trace (emit e st) = trace st @ [e]"
  by (simp add: emit_def)

lemma sends_emit: "sends (emit e st) = sends st @ (if is_sendto e then [e] else [])"
  by (simp add: sends_def emit_def)

lemma selects_emit: "selects (emit e st) = selects st @ (if is_select e then [e] else [])"
  by (simp add: selects_def emit_def)

lemma sockets_emit: "sockets (emit e st) = sockets st @ (if is_socket e then [e] else [])"
  by (simp add: sockets_def emit_def)

lemma stdout_emit:
  "stdout_lines (emit e st) = stdout_lines st @ (if is_stdout e then [e] else [])"
  by (simp add: stdout_lines_def emit_def)

lemma sends_init: "sends init_state = []"
  by (simp add: sends_def init_state_def)

lemma selects_init: "selects init_state = []"
  by (simp add: selects_def init_state_def)

lemma stdout_init: "stdout_lines init_state = []"
  by (simp add: stdout_lines_def init_state_def)

lemma inc_trace:
  "trace (inc_open st) = trace st" "trace (inc_closed st) = trace st"
  "trace (inc_filtered st) = trace st" "trace (inc_total st) = trace st"
  by (simp_all add: inc_open_def inc_closed_def inc_filtered_def inc_total_def)

lemma inc_sends:
  "sends (inc_open st) = sends st" "sends (inc_closed st) = sends st"
  "sends (inc_filtered st) = sends st" "sends (inc_total st) = sends st"
  by (simp_all add: sends_def inc_trace)

lemma inc_selects:
  "selects (inc_open st) = selects st" "selects (inc_closed st) = selects st"
  "selects (inc_filtered st) = selects st" "selects (inc_total st) = selects st"
  by (simp_all add: selects_def inc_trace)

lemma inc_stdout:
  "stdout_lines (inc_open st) = stdout_lines st" "stdout_lines (inc_closed st) = stdout_lines st"
  "stdout_lines (inc_filtered st) = stdout_lines st"
  "stdout_lines (inc_total st) = stdout_lines st"
  by (simp_all add: stdout_lines_def inc_trace)

lemma inc_stats:
  "stats (inc_open st) = (stats st)\<lparr>open_ports := open_ports (stats st) + 1\<rparr>"
  "stats (inc_closed st) = (stats st)\<lparr>closed_ports := closed_ports (stats st) + 1\<rparr>"
  "stats (inc_filtered st) = (stats st)\<lparr>filtered_ports := filtered_ports (stats st) + 1\<rparr>"
  "stats (inc_total st) = (stats st)\<lparr>total_ports := total_ports (stats st) + 1\<rparr>"
  by (simp_all add: inc_open_def inc_closed_def inc_filtered_def inc_total_def)

lemma pre_icmp_proj:
  "stats (pre_icmp a st) = stats st" "sends (pre_icmp a st) = sends st"
  "stdout_lines (pre_icmp a st) = stdout_lines st"
  "selects (pre_icmp a st) = selects st @ [Sys_select TIMEOUT_SEC TIMEOUT_USEC]"
  by (simp_all add: pre_icmp_def stats_emit sends_emit stdout_emit selects_emit)

lemma nibble_le: "unat ((b::byte) AND 0x0F) \<le> 15"
  using word_and_le1 [of b 15] by (simp add: word_le_nat_alt)

lemma icmp_type_recv:
  assumes "dgram_icmp_type d = Some t"
  shows "icmp_type (recv_into buf (Recv_data d)) = t"
proof -
  have b: "unat (d ! 0 AND 0x0F) \<le> 15" by (rule nibble_le)
  from assms have ne: "d \<noteq> []" and lt: "4 * unat (d ! 0 AND 0x0F) < length d"
    and t: "t = d ! (4 * unat (d ! 0 AND 0x0F))"
    by (auto simp: dgram_icmp_type_def split: if_splits)
  from ne have l0: "0 < length d" by simp
  show ?thesis using b lt t l0
    by (simp add: icmp_type_def ip_hl_def push_bit_eq_mult MAX_PACKET_SIZE_def mult.commute)
qed

lemma icmp_code_recv:
  assumes "dgram_icmp_code d = Some c"
  shows "icmp_code (recv_into buf (Recv_data d)) = c"
proof -
  have b: "unat (d ! 0 AND 0x0F) \<le> 15" by (rule nibble_le)
  from assms have ne: "d \<noteq> []" and lt: "4 * unat (d ! 0 AND 0x0F) + 1 < length d"
    and t: "c = d ! (4 * unat (d ! 0 AND 0x0F) + 1)"
    by (auto simp: dgram_icmp_code_def split: if_splits)
  from ne have l0: "0 < length d" by simp
  show ?thesis using b lt t l0
    by (simp add: icmp_code_def ip_hl_def push_bit_eq_mult MAX_PACKET_SIZE_def mult.commute)
qed

lemma dgram_type_recv_n: "dgram_icmp_type d = Some t \<Longrightarrow> 0 < recv_n (Recv_data d)"
  by (auto simp: dgram_icmp_type_def MAX_PACKET_SIZE_def split: if_splits)

lemma attempt_cases:
  obtains "select_ret a < 0" | "select_ret a = 0"
    | "0 < select_ret a" "udp_isset a" "0 < recv_n (udp_recv a)"
    | "0 < select_ret a" "\<not> (udp_isset a \<and> 0 < recv_n (udp_recv a))"
  by linarith

lemma count_verdict_total: "total_ports (count_verdict v s) = total_ports s"
  by (simp add: count_verdict_def split: option.split verdict.split)

section \<open>The classifier of \<^verbatim>\<open>udp_scanner.c\<close>\<close>

lemma rr_select_err:
  "select_ret a < 0 \<Longrightarrow> receive_response a port svc st =
     (-1, emit (Perror ''select'') (emit (Sys_select TIMEOUT_SEC TIMEOUT_USEC) st))"
  by (simp add: receive_response_def Let_def)

lemma rr_timeout:
  "select_ret a = 0 \<Longrightarrow> receive_response a port svc st =
     (1, inc_filtered (emit (Print_open_filtered port (or_unknown svc))
           (emit (Sys_select TIMEOUT_SEC TIMEOUT_USEC) st)))"
  by (simp add: receive_response_def Let_def)

lemma rr_udp_data:
  "0 < select_ret a \<Longrightarrow> udp_isset a \<Longrightarrow> 0 < recv_n (udp_recv a) \<Longrightarrow>
   receive_response a port svc st =
     (0, inc_open (emit (Print_open port (or_unknown svc) (recv_n (udp_recv a)))
           (emit Sys_recvfrom_udp (emit (Sys_select TIMEOUT_SEC TIMEOUT_USEC) st))))"
  by (simp add: receive_response_def Let_def)

lemma rr_to_icmp:
  "0 < select_ret a \<Longrightarrow> \<not> (udp_isset a \<and> 0 < recv_n (udp_recv a)) \<Longrightarrow>
   receive_response a port svc st = receive_icmp a (pre_buf a) port (pre_icmp a st)"
  by (auto simp: receive_response_def Let_def pre_icmp_def pre_buf_def)

lemma ri_unreach:
  assumes "icmp_isset a" "icmp_recv a = Recv_data d"
    "dgram_icmp_type d = Some ICMP_UNREACH" "dgram_icmp_code d = Some c"
  shows "receive_icmp a buf port st =
     (if c = ICMP_UNREACH_PORT
      then (2, inc_closed (emit (Print_closed port) (emit Sys_recvfrom_icmp st)))
      else (3, inc_filtered
                 (emit (Print_filtered port ICMP_UNREACH c) (emit Sys_recvfrom_icmp st))))"
  using assms dgram_type_recv_n [OF assms(3)]
  by (simp add: receive_icmp_def Let_def icmp_type_recv icmp_code_recv
        del: recv_n.simps recv_into.simps)

lemma ri_other:
  assumes "icmp_isset a" "icmp_recv a = Recv_data d"
    "dgram_icmp_type d = Some t" "t \<noteq> ICMP_UNREACH"
  shows "receive_icmp a buf port st = (-1, emit Sys_recvfrom_icmp st)"
  using assms dgram_type_recv_n [OF assms(3)]
  by (simp add: receive_icmp_def Let_def icmp_type_recv del: recv_n.simps recv_into.simps)

lemma ri_not_ready: "\<not> icmp_isset a \<Longrightarrow> receive_icmp a buf port st = (-1, st)"
  by (simp add: receive_icmp_def)

lemma ri_fst: "fst (receive_icmp a buf port st) = fst (receive_icmp a buf port' st')"
  by (simp add: receive_icmp_def Let_def)

lemma ri_fst_range: "fst (receive_icmp a buf port st) \<in> {-1, 2, 3}"
  by (simp add: receive_icmp_def Let_def)

lemma ri_stats:
  "stats (snd (receive_icmp a buf port st)) =
     count_verdict (verdict_of (fst (receive_icmp a buf port st))) (stats st)"
  by (simp add: receive_icmp_def Let_def verdict_of_def count_verdict_def stats_emit inc_stats)

lemma ri_sends: "sends (snd (receive_icmp a buf port st)) = sends st"
  by (simp add: receive_icmp_def Let_def sends_emit inc_sends)

lemma ri_selects: "selects (snd (receive_icmp a buf port st)) = selects st"
  by (simp add: receive_icmp_def Let_def selects_emit inc_selects)

lemma ri_stdout_none:
  "fst (receive_icmp a buf port st) = -1 \<Longrightarrow>
   stdout_lines (snd (receive_icmp a buf port st)) = stdout_lines st"
  by (simp add: receive_icmp_def Let_def stdout_emit inc_stdout split: if_splits)

lemma rr_fst: "fst (receive_response a port svc st) = attempt_result a"
proof (cases a rule: attempt_cases)
  case 1 then show ?thesis by (simp add: rr_select_err attempt_result_def)
next
  case 2 then show ?thesis by (simp add: rr_timeout attempt_result_def)
next
  case 3 then show ?thesis by (simp add: rr_udp_data attempt_result_def)
next
  case 4 then show ?thesis
    using ri_fst [of a "pre_buf a" port "pre_icmp a st" 0 "pre_icmp a init_state"]
    by (simp add: rr_to_icmp attempt_result_def)
qed

lemma rr_stats:
  "stats (snd (receive_response a port svc st)) =
     count_verdict (verdict_of (fst (receive_response a port svc st))) (stats st)"
proof (cases a rule: attempt_cases)
  case 1 then show ?thesis by (simp add: rr_select_err verdict_of_def count_verdict_def stats_emit)
next
  case 2 then show ?thesis by (simp add: rr_timeout verdict_of_def count_verdict_def stats_emit inc_stats)
next
  case 3 then show ?thesis by (simp add: rr_udp_data verdict_of_def count_verdict_def stats_emit inc_stats)
next
  case 4 then show ?thesis
    by (simp add: rr_to_icmp ri_stats pre_icmp_proj)
qed

lemma rr_total: "total_ports (stats (snd (receive_response a port svc st))) = total_ports (stats st)"
  by (simp add: rr_stats count_verdict_total)

lemma rr_sends: "sends (snd (receive_response a port svc st)) = sends st"
proof (cases a rule: attempt_cases)
  case 1 then show ?thesis by (simp add: rr_select_err sends_emit)
next
  case 2 then show ?thesis by (simp add: rr_timeout sends_emit inc_sends)
next
  case 3 then show ?thesis by (simp add: rr_udp_data sends_emit inc_sends)
next
  case 4 then show ?thesis by (simp add: rr_to_icmp ri_sends pre_icmp_proj)
qed

lemma rr_selects:
  "selects (snd (receive_response a port svc st)) =
     selects st @ [Sys_select TIMEOUT_SEC TIMEOUT_USEC]"
proof (cases a rule: attempt_cases)
  case 1 then show ?thesis by (simp add: rr_select_err selects_emit)
next
  case 2 then show ?thesis by (simp add: rr_timeout selects_emit inc_selects)
next
  case 3 then show ?thesis by (simp add: rr_udp_data selects_emit inc_selects)
next
  case 4 then show ?thesis by (simp add: rr_to_icmp ri_selects pre_icmp_proj)
qed

lemma rr_stdout_none:
  assumes "attempt_result a = -1"
  shows "stdout_lines (snd (receive_response a port svc st)) = stdout_lines st"
proof (cases a rule: attempt_cases)
  case 1 then show ?thesis by (simp add: rr_select_err stdout_emit)
next
  case 2 with assms show ?thesis by (simp add: rr_timeout attempt_result_def)
next
  case 3 with assms show ?thesis by (simp add: rr_udp_data attempt_result_def)
next
  case 4
  from assms have "fst (receive_response a port svc st) = -1" by (simp add: rr_fst)
  with 4 show ?thesis by (simp add: rr_to_icmp ri_stdout_none pre_icmp_proj)
qed

lemma rr_stats_none:
  assumes "attempt_result a = -1"
  shows "stats (snd (receive_response a port svc st)) = stats st"
  using assms rr_stats [of a port svc st] by (simp add: rr_fst verdict_of_def count_verdict_def)

section \<open>The prober and the port loop of \<^verbatim>\<open>udp_scanner.c\<close>\<close>

lemma sp_fst:
  "fst (send_udp_probe a t port pl n st) = (if sendto_ret a < 0 then -1 else 0)"
  by (simp add: send_udp_probe_def Let_def)

lemma sp_sends:
  "sends (snd (send_udp_probe a t port pl n st)) =
     sends st @ [Sys_sendto t port (probe_bytes pl n)]"
  by (simp add: send_udp_probe_def Let_def sends_emit probe_bytes_def)

lemma sp_selects: "selects (snd (send_udp_probe a t port pl n st)) = selects st"
  by (simp add: send_udp_probe_def Let_def selects_emit)

lemma sp_stats: "stats (snd (send_udp_probe a t port pl n st)) = stats st"
  by (simp add: send_udp_probe_def Let_def stats_emit)

lemma sp_stdout: "stdout_lines (snd (send_udp_probe a t port pl n st)) = stdout_lines st"
  by (simp add: send_udp_probe_def Let_def stdout_emit)

lemma retry_loop_unroll:
  "retry_loop att t port pl n svc 0 st =
     (let s1 = send_udp_probe (att 0) t port pl n st
      in if fst s1 < 0 then Inl (emit Sys_close_icmp (emit Sys_close_udp (snd s1)))
         else
           (let r1 = receive_response (att 0) port svc (snd s1)
            in if fst r1 = 0 \<or> fst r1 = 2 then Inr (snd r1)
               else
                 (let s2 = send_udp_probe (att 1) t port pl n (snd r1)
                  in if fst s2 < 0 then Inl (emit Sys_close_icmp (emit Sys_close_udp (snd s2)))
                     else Inr (snd (receive_response (att 1) port svc (snd s2))))))"
  by (simp add: retry_loop.simps [of _ _ _ _ _ _ 0] retry_loop.simps [of _ _ _ _ _ _ "Suc 0"]
        retry_loop.simps [of _ _ _ _ _ _ "Suc (Suc 0)"] MAX_RETRIES_def Let_def
        split: prod.split)

lemma retry_loop_one:
  assumes "0 \<le> sendto_ret (att 0)" and "attempt_result (att 0) = 0 \<or> attempt_result (att 0) = 2"
  shows "retry_loop att t port pl n svc 0 st = Inr (one_attempt (att 0) t port pl n svc st)"
  using assms by (simp add: retry_loop_unroll Let_def sp_fst rr_fst one_attempt_def)

lemma retry_loop_two:
  assumes "0 \<le> sendto_ret (att 0)" and "attempt_result (att 0) \<noteq> 0"
    and "attempt_result (att 0) \<noteq> 2" and "0 \<le> sendto_ret (att 1)"
  shows "retry_loop att t port pl n svc 0 st =
     Inr (one_attempt (att 1) t port pl n svc (one_attempt (att 0) t port pl n svc st))"
  using assms by (simp add: retry_loop_unroll Let_def sp_fst rr_fst one_attempt_def)

lemma retry_loop_two_sends:
  assumes "0 \<le> sendto_ret (att 0)" and "attempt_result (att 0) \<noteq> 0"
    and "attempt_result (att 0) \<noteq> 2"
  shows "sends (loop_state (retry_loop att t port pl n svc 0 st)) =
     sends st @ [Sys_sendto t port (probe_bytes pl n), Sys_sendto t port (probe_bytes pl n)]"
  using assms
  by (simp add: retry_loop_unroll Let_def sp_fst rr_fst loop_state_def sends_emit sp_sends
        rr_sends)

lemma retry_loop_sends_le:
  "length (sends (loop_state (retry_loop att t port pl n svc 0 st))) \<le> length (sends st) + 2"
  by (simp add: retry_loop_unroll Let_def loop_state_def sends_emit sp_sends rr_sends)

lemma one_attempt_sends:
  "sends (one_attempt a t port pl n svc st) = sends st @ [Sys_sendto t port (probe_bytes pl n)]"
  by (simp add: one_attempt_def rr_sends sp_sends)

lemma one_attempt_selects:
  "selects (one_attempt a t port pl n svc st) =
     selects st @ [Sys_select TIMEOUT_SEC TIMEOUT_USEC]"
  by (simp add: one_attempt_def rr_selects sp_selects)

lemma one_attempt_none:
  assumes "attempt_result a = -1"
  shows "stats (one_attempt a t port pl n svc st) = stats st"
    and "stdout_lines (one_attempt a t port pl n svc st) = stdout_lines st"
  using assms by (simp_all add: one_attempt_def rr_stats_none rr_stdout_none sp_stats sp_stdout)

lemma retry_loop_total:
  "total_ports (stats (loop_state (retry_loop att t port pl n svc 0 st))) = total_ports (stats st)"
  by (simp add: retry_loop_unroll Let_def loop_state_def stats_emit rr_total sp_stats)

lemma retry_loop_send_fails:
  "sendto_ret (att 0) < 0 \<Longrightarrow>
   stats (loop_state (retry_loop att t port pl n svc 0 st)) = stats st"
  by (simp add: retry_loop_unroll Let_def loop_state_def stats_emit sp_stats sp_fst)

lemma scan_no_udp_socket:
  "udp_socket_ret pe < 0 \<Longrightarrow>
   scan_udp_port probes pe t port st =
     emit (Perror ''UDP socket creation failed'') (emit Sys_socket_dgram st)"
  by (simp add: scan_udp_port_def Let_def)

lemma scan_no_raw_socket:
  "0 \<le> udp_socket_ret pe \<Longrightarrow> icmp_socket_ret pe < 0 \<Longrightarrow>
   scan_udp_port probes pe t port st =
     emit Sys_close_udp (emit (Perror ''ICMP socket creation failed (need root)'')
       (emit Sys_socket_raw (emit Sys_socket_dgram st)))"
  by (simp add: scan_udp_port_def Let_def)

lemma scan_sockets_ok:
  assumes "0 \<le> udp_socket_ret pe" "0 \<le> icmp_socket_ret pe"
  obtains pl n svc where
    "scan_udp_port probes pe t port st =
       (case retry_loop (attempts pe) t port pl n svc 0
               (emit Sys_socket_raw (emit Sys_socket_dgram st)) of
          Inl s \<Rightarrow> s | Inr s \<Rightarrow> emit Sys_close_icmp (emit Sys_close_udp s))"
  using assms by (cases "get_probe_for_port probes port") (simp_all add: scan_udp_port_def Let_def)

lemma scan_total:
  "total_ports (stats (scan_udp_port probes pe t port st)) = total_ports (stats st)"
proof -
  consider "udp_socket_ret pe < 0" | "0 \<le> udp_socket_ret pe" "icmp_socket_ret pe < 0"
    | "0 \<le> udp_socket_ret pe" "0 \<le> icmp_socket_ret pe" by linarith
  then show ?thesis
  proof cases
    case 1 then show ?thesis by (simp add: scan_no_udp_socket stats_emit)
  next
    case 2 then show ?thesis by (simp add: scan_no_raw_socket stats_emit)
  next
    case 3
    from scan_sockets_ok [OF 3] obtain pl n svc where
      eq: "scan_udp_port probes pe t port st =
       (case retry_loop (attempts pe) t port pl n svc 0
               (emit Sys_socket_raw (emit Sys_socket_dgram st)) of
          Inl s \<Rightarrow> s | Inr s \<Rightarrow> emit Sys_close_icmp (emit Sys_close_udp s))" .
    show ?thesis
      using retry_loop_total [of "attempts pe" t port pl n svc
          "emit Sys_socket_raw (emit Sys_socket_dgram st)"]
      by (simp add: eq loop_state_def stats_emit split: sum.splits)
  qed
qed

lemma scan_aborted_stats:
  assumes "udp_socket_ret pe < 0 \<or> icmp_socket_ret pe < 0 \<or> sendto_ret (attempts pe 0) < 0"
  shows "stats (scan_udp_port probes pe t port st) = stats st"
proof -
  consider "udp_socket_ret pe < 0" | "0 \<le> udp_socket_ret pe" "icmp_socket_ret pe < 0"
    | "0 \<le> udp_socket_ret pe" "0 \<le> icmp_socket_ret pe" by linarith
  then show ?thesis
  proof cases
    case 1 then show ?thesis by (simp add: scan_no_udp_socket stats_emit)
  next
    case 2 then show ?thesis by (simp add: scan_no_raw_socket stats_emit)
  next
    case 3
    with assms have sf: "sendto_ret (attempts pe 0) < 0" by simp
    from scan_sockets_ok [OF 3] obtain pl n svc where
      eq: "scan_udp_port probes pe t port st =
       (case retry_loop (attempts pe) t port pl n svc 0
               (emit Sys_socket_raw (emit Sys_socket_dgram st)) of
          Inl s \<Rightarrow> s | Inr s \<Rightarrow> emit Sys_close_icmp (emit Sys_close_udp s))" .
    show ?thesis
      using sf retry_loop_send_fails [of "attempts pe" t port pl n svc
          "emit Sys_socket_raw (emit Sys_socket_dgram st)"]
      by (simp add: eq loop_state_def stats_emit split: sum.splits)
  qed
qed

lemma port_loop_total:
  "total_ports (stats (port_loop probes envs t s e st)) =
     total_ports (stats st) + (if s \<le> e then e - s + 1 else 0)"
proof (induction probes envs t s e st rule: port_loop.induct)
  case (1 probes envs t s e st)
  show ?case
  proof (cases "s \<le> e")
    case True
    with 1 show ?thesis
      by (subst port_loop.simps) (simp add: stats_emit inc_stats scan_total)
  next
    case False
    then show ?thesis by (subst port_loop.simps) simp
  qed
qed

lemma port_loop_aborted_stats:
  assumes "\<forall>p. s \<le> p \<and> p \<le> e \<longrightarrow>
     udp_socket_ret (envs p) < 0 \<or> icmp_socket_ret (envs p) < 0
       \<or> sendto_ret (attempts (envs p) 0) < 0"
  shows "open_ports (stats (port_loop probes envs t s e st)) = open_ports (stats st)
     \<and> closed_ports (stats (port_loop probes envs t s e st)) = closed_ports (stats st)
     \<and> filtered_ports (stats (port_loop probes envs t s e st)) = filtered_ports (stats st)"
  using assms
proof (induction probes envs t s e st rule: port_loop.induct)
  case (1 probes envs t s e st)
  show ?case
  proof (cases "s \<le> e")
    case True
    have ab: "udp_socket_ret (envs s) < 0 \<or> icmp_socket_ret (envs s) < 0
       \<or> sendto_ret (attempts (envs s) 0) < 0"
      using "1.prems" True by simp
    have rest: "\<forall>p. s + 1 \<le> p \<and> p \<le> e \<longrightarrow>
       udp_socket_ret (envs p) < 0 \<or> icmp_socket_ret (envs p) < 0
         \<or> sendto_ret (attempts (envs p) 0) < 0"
      using "1.prems" by simp
    from "1.IH" [OF True rest] show ?thesis
      by (subst (1 2 3) port_loop.simps)
         (simp add: True stats_emit inc_stats scan_aborted_stats [OF ab])
  next
    case False
    then show ?thesis by (subst (1 2 3) port_loop.simps) simp
  qed
qed

lemma scan_two:
  assumes "0 \<le> udp_socket_ret pe" and "0 \<le> icmp_socket_ret pe"
    and "0 \<le> sendto_ret (attempts pe 0)"
    and "attempt_result (attempts pe 0) \<noteq> 0" and "attempt_result (attempts pe 0) \<noteq> 2"
    and "0 \<le> sendto_ret (attempts pe 1)"
  obtains pl n svc where
    "scan_udp_port probes pe t port st =
       emit Sys_close_icmp (emit Sys_close_udp
         (one_attempt (attempts pe 1) t port pl n svc
            (one_attempt (attempts pe 0) t port pl n svc
               (emit Sys_socket_raw (emit Sys_socket_dgram st)))))"
proof -
  from scan_sockets_ok [OF assms(1,2)] obtain pl n svc where
    eq: "scan_udp_port probes pe t port st =
       (case retry_loop (attempts pe) t port pl n svc 0
               (emit Sys_socket_raw (emit Sys_socket_dgram st)) of
          Inl s \<Rightarrow> s | Inr s \<Rightarrow> emit Sys_close_icmp (emit Sys_close_udp s))" .
  show ?thesis
    using retry_loop_two [of "attempts pe", OF assms(3,4,5,6)]
    by (intro that [of pl n svc]) (simp add: eq)
qed

lemma scan_no_verdict:
  assumes "0 \<le> udp_socket_ret pe" and "0 \<le> icmp_socket_ret pe"
    and "0 \<le> sendto_ret (attempts pe 0)" and "attempt_result (attempts pe 0) = -1"
    and "0 \<le> sendto_ret (attempts pe 1)" and "attempt_result (attempts pe 1) = -1"
  shows "stats (scan_udp_port probes pe t port st) = stats st
     \<and> stdout_lines (scan_udp_port probes pe t port st) = stdout_lines st
     \<and> length (sends (scan_udp_port probes pe t port st)) = length (sends st) + MAX_RETRIES"
proof -
  have r: "attempt_result (attempts pe 0) \<noteq> 0" "attempt_result (attempts pe 0) \<noteq> 2"
    using assms(4) by simp_all
  from scan_two [OF assms(1,2,3) r assms(5)] obtain pl n svc where
    "scan_udp_port probes pe t port st =
       emit Sys_close_icmp (emit Sys_close_udp
         (one_attempt (attempts pe 1) t port pl n svc
            (one_attempt (attempts pe 0) t port pl n svc
               (emit Sys_socket_raw (emit Sys_socket_dgram st)))))" .
  then show ?thesis
    using assms(4,6)
    by (simp add: stats_emit stdout_emit sends_emit one_attempt_none one_attempt_sends
          MAX_RETRIES_def)
qed

lemma port_loop_no_raw:
  assumes "\<forall>p. s \<le> p \<and> p \<le> e \<longrightarrow> 0 \<le> udp_socket_ret (envs p) \<and> icmp_socket_ret (envs p) < 0"
  shows "sends (port_loop probes envs t s e st) = sends st
     \<and> stdout_lines (port_loop probes envs t s e st) = stdout_lines st
     \<and> set (trace st) \<subseteq> set (trace (port_loop probes envs t s e st))"
  using assms
proof (induction probes envs t s e st rule: port_loop.induct)
  case (1 probes envs t s e st)
  show ?case
  proof (cases "s \<le> e")
    case True
    have nr: "0 \<le> udp_socket_ret (envs s)" "icmp_socket_ret (envs s) < 0"
      using "1.prems" True by simp_all
    have rest: "\<forall>p. s + 1 \<le> p \<and> p \<le> e \<longrightarrow>
        0 \<le> udp_socket_ret (envs p) \<and> icmp_socket_ret (envs p) < 0"
      using "1.prems" by simp
    from "1.IH" [OF True rest] show ?thesis
      by (subst (1 2 3) port_loop.simps)
         (auto simp: True scan_no_raw_socket [OF nr] sends_emit stdout_emit trace_emit
            inc_sends inc_stdout inc_trace)
  next
    case False
    then show ?thesis by (subst (1 2 3) port_loop.simps) simp
  qed
qed

section \<open>The classifier of \<^verbatim>\<open>udp_scanner_extended.c\<close>\<close>

lemma ext_rr_select_err:
  "select_ret a < 0 \<Longrightarrow> receive_response_ext a port svc rfc st =
     (-1, emit (Sys_select TIMEOUT_SEC TIMEOUT_USEC) st)"
  by (simp add: receive_response_ext_def Let_def)

lemma ext_rr_timeout:
  "select_ret a = 0 \<Longrightarrow> receive_response_ext a port svc rfc st =
     (1, inc_filtered (emit (Print_open_filtered_ext port (or_unknown svc) (or_empty rfc))
           (emit (Sys_select TIMEOUT_SEC TIMEOUT_USEC) st)))"
  by (simp add: receive_response_ext_def Let_def)

lemma ext_rr_udp_data:
  "0 < select_ret a \<Longrightarrow> udp_isset a \<Longrightarrow> 0 < recv_n (udp_recv a) \<Longrightarrow>
   receive_response_ext a port svc rfc st =
     (0, inc_open (emit (Print_open_ext port (or_unknown svc) (or_empty rfc) (recv_n (udp_recv a)))
           (emit Sys_recvfrom_udp (emit (Sys_select TIMEOUT_SEC TIMEOUT_USEC) st))))"
  by (simp add: receive_response_ext_def Let_def)

lemma ext_rr_to_icmp:
  "0 < select_ret a \<Longrightarrow> \<not> (udp_isset a \<and> 0 < recv_n (udp_recv a)) \<Longrightarrow>
   receive_response_ext a port svc rfc st = receive_icmp_ext a (pre_buf a) port (pre_icmp a st)"
  by (auto simp: receive_response_ext_def Let_def pre_icmp_def pre_buf_def)

lemma ext_ri_unreach:
  assumes "icmp_isset a" "icmp_recv a = Recv_data d"
    "dgram_icmp_type d = Some ICMP_UNREACH" "dgram_icmp_code d = Some c"
  shows "receive_icmp_ext a buf port st =
     (if c = ICMP_UNREACH_PORT
      then (2, inc_closed (emit (Print_closed_ext port) (emit Sys_recvfrom_icmp st)))
      else (3, inc_filtered
                 (emit (Print_filtered_ext port c) (emit Sys_recvfrom_icmp st))))"
  using assms dgram_type_recv_n [OF assms(3)]
  by (simp add: receive_icmp_ext_def Let_def icmp_type_recv icmp_code_recv
        del: recv_n.simps recv_into.simps)

lemma ext_ri_other:
  assumes "icmp_isset a" "icmp_recv a = Recv_data d"
    "dgram_icmp_type d = Some t" "t \<noteq> ICMP_UNREACH"
  shows "receive_icmp_ext a buf port st = (-1, emit Sys_recvfrom_icmp st)"
  using assms dgram_type_recv_n [OF assms(3)]
  by (simp add: receive_icmp_ext_def Let_def icmp_type_recv del: recv_n.simps recv_into.simps)

lemma ext_ri_not_ready: "\<not> icmp_isset a \<Longrightarrow> receive_icmp_ext a buf port st = (-1, st)"
  by (simp add: receive_icmp_ext_def)

lemma ext_ri_fst: "fst (receive_icmp_ext a buf port st) = fst (receive_icmp_ext a buf port' st')"
  by (simp add: receive_icmp_ext_def Let_def)

lemma ext_ri_fst_range: "fst (receive_icmp_ext a buf port st) \<in> {-1, 2, 3}"
  by (simp add: receive_icmp_ext_def Let_def)

lemma ext_ri_stats:
  "stats (snd (receive_icmp_ext a buf port st)) =
     count_verdict (verdict_of (fst (receive_icmp_ext a buf port st))) (stats st)"
  by (simp add: receive_icmp_ext_def Let_def verdict_of_def count_verdict_def stats_emit inc_stats)

lemma ext_ri_sends: "sends (snd (receive_icmp_ext a buf port st)) = sends st"
  by (simp add: receive_icmp_ext_def Let_def sends_emit inc_sends)

lemma ext_ri_selects: "selects (snd (receive_icmp_ext a buf port st)) = selects st"
  by (simp add: receive_icmp_ext_def Let_def selects_emit inc_selects)

lemma ext_ri_stdout_none:
  "fst (receive_icmp_ext a buf port st) = -1 \<Longrightarrow>
   stdout_lines (snd (receive_icmp_ext a buf port st)) = stdout_lines st"
  by (simp add: receive_icmp_ext_def Let_def stdout_emit inc_stdout split: if_splits)

lemma ext_rr_fst: "fst (receive_response_ext a port svc rfc st) = attempt_result_ext a"
proof (cases a rule: attempt_cases)
  case 1 then show ?thesis by (simp add: ext_rr_select_err attempt_result_ext_def)
next
  case 2 then show ?thesis by (simp add: ext_rr_timeout attempt_result_ext_def)
next
  case 3 then show ?thesis by (simp add: ext_rr_udp_data attempt_result_ext_def)
next
  case 4 then show ?thesis
    using ext_ri_fst [of a "pre_buf a" port "pre_icmp a st" 0 "pre_icmp a init_state"]
    by (simp add: ext_rr_to_icmp attempt_result_ext_def)
qed

lemma ext_rr_stats:
  "stats (snd (receive_response_ext a port svc rfc st)) =
     count_verdict (verdict_of (fst (receive_response_ext a port svc rfc st))) (stats st)"
proof (cases a rule: attempt_cases)
  case 1 then show ?thesis by (simp add: ext_rr_select_err verdict_of_def count_verdict_def stats_emit)
next
  case 2 then show ?thesis by (simp add: ext_rr_timeout verdict_of_def count_verdict_def stats_emit inc_stats)
next
  case 3 then show ?thesis by (simp add: ext_rr_udp_data verdict_of_def count_verdict_def stats_emit inc_stats)
next
  case 4 then show ?thesis
    by (simp add: ext_rr_to_icmp ext_ri_stats pre_icmp_proj)
qed

lemma ext_rr_total: "total_ports (stats (snd (receive_response_ext a port svc rfc st))) = total_ports (stats st)"
  by (simp add: ext_rr_stats count_verdict_total)

lemma ext_rr_sends: "sends (snd (receive_response_ext a port svc rfc st)) = sends st"
proof (cases a rule: attempt_cases)
  case 1 then show ?thesis by (simp add: ext_rr_select_err sends_emit)
next
  case 2 then show ?thesis by (simp add: ext_rr_timeout sends_emit inc_sends)
next
  case 3 then show ?thesis by (simp add: ext_rr_udp_data sends_emit inc_sends)
next
  case 4 then show ?thesis by (simp add: ext_rr_to_icmp ext_ri_sends pre_icmp_proj)
qed

lemma ext_rr_selects:
  "selects (snd (receive_response_ext a port svc rfc st)) =
     selects st @ [Sys_select TIMEOUT_SEC TIMEOUT_USEC]"
proof (cases a rule: attempt_cases)
  case 1 then show ?thesis by (simp add: ext_rr_select_err selects_emit)
next
  case 2 then show ?thesis by (simp add: ext_rr_timeout selects_emit inc_selects)
next
  case 3 then show ?thesis by (simp add: ext_rr_udp_data selects_emit inc_selects)
next
  case 4 then show ?thesis by (simp add: ext_rr_to_icmp ext_ri_selects pre_icmp_proj)
qed

lemma ext_rr_stdout_none:
  assumes "attempt_result_ext a = -1"
  shows "stdout_lines (snd (receive_response_ext a port svc rfc st)) = stdout_lines st"
proof (cases a rule: attempt_cases)
  case 1 then show ?thesis by (simp add: ext_rr_select_err stdout_emit)
next
  case 2 with assms show ?thesis by (simp add: ext_rr_timeout attempt_result_ext_def)
next
  case 3 with assms show ?thesis by (simp add: ext_rr_udp_data attempt_result_ext_def)
next
  case 4
  from assms have "fst (receive_response_ext a port svc rfc st) = -1" by (simp add: ext_rr_fst)
  with 4 show ?thesis by (simp add: ext_rr_to_icmp ext_ri_stdout_none pre_icmp_proj)
qed

lemma ext_rr_stats_none:
  assumes "attempt_result_ext a = -1"
  shows "stats (snd (receive_response_ext a port svc rfc st)) = stats st"
  using assms ext_rr_stats [of a port svc rfc st] by (simp add: ext_rr_fst verdict_of_def count_verdict_def)

section \<open>The prober and the port loop of \<^verbatim>\<open>udp_scanner_extended.c\<close>\<close>

lemma ext_sp_fst:
  "fst (send_udp_probe_ext a t port pl n st) = (if sendto_ret a < 0 then -1 else 0)"
  by (simp add: send_udp_probe_ext_def Let_def)

lemma ext_sp_sends:
  "sends (snd (send_udp_probe_ext a t port pl n st)) =
     sends st @ [Sys_sendto t port (probe_bytes pl n)]"
  by (simp add: send_udp_probe_ext_def Let_def sends_emit probe_bytes_def)

lemma ext_sp_selects: "selects (snd (send_udp_probe_ext a t port pl n st)) = selects st"
  by (simp add: send_udp_probe_ext_def Let_def selects_emit)

lemma ext_sp_stats: "stats (snd (send_udp_probe_ext a t port pl n st)) = stats st"
  by (simp add: send_udp_probe_ext_def Let_def stats_emit)

lemma ext_sp_stdout: "stdout_lines (snd (send_udp_probe_ext a t port pl n st)) = stdout_lines st"
  by (simp add: send_udp_probe_ext_def Let_def stdout_emit)

lemma ext_retry_loop_unroll:
  "retry_loop_ext att t port pl n svc rfc 0 st =
     (let s1 = send_udp_probe_ext (att 0) t port pl n st
      in if fst s1 < 0 then Inl (emit Sys_close_icmp (emit Sys_close_udp (snd s1)))
         else
           (let r1 = receive_response_ext (att 0) port svc rfc (snd s1)
            in if fst r1 = 0 \<or> fst r1 = 2 then Inr (snd r1)
               else
                 (let s2 = send_udp_probe_ext (att 1) t port pl n (snd r1)
                  in if fst s2 < 0 then Inl (emit Sys_close_icmp (emit Sys_close_udp (snd s2)))
                     else Inr (snd (receive_response_ext (att 1) port svc rfc (snd s2))))))"
  by (simp add: retry_loop_ext.simps [of _ _ _ _ _ _ _ 0] retry_loop_ext.simps [of _ _ _ _ _ _ _ "Suc 0"]
        retry_loop_ext.simps [of _ _ _ _ _ _ _ "Suc (Suc 0)"] MAX_RETRIES_def Let_def
        split: prod.split)

lemma ext_retry_loop_one:
  assumes "0 \<le> sendto_ret (att 0)"
    and "attempt_result_ext (att 0) = 0 \<or> attempt_result_ext (att 0) = 2"
  shows "retry_loop_ext att t port pl n svc rfc 0 st =
     Inr (one_attempt_ext (att 0) t port pl n svc rfc st)"
  using assms by (simp add: ext_retry_loop_unroll Let_def ext_sp_fst ext_rr_fst one_attempt_ext_def)

lemma ext_retry_loop_two:
  assumes "0 \<le> sendto_ret (att 0)" and "attempt_result_ext (att 0) \<noteq> 0"
    and "attempt_result_ext (att 0) \<noteq> 2" and "0 \<le> sendto_ret (att 1)"
  shows "retry_loop_ext att t port pl n svc rfc 0 st =
     Inr (one_attempt_ext (att 1) t port pl n svc rfc
            (one_attempt_ext (att 0) t port pl n svc rfc st))"
  using assms by (simp add: ext_retry_loop_unroll Let_def ext_sp_fst ext_rr_fst one_attempt_ext_def)

lemma ext_retry_loop_two_sends:
  assumes "0 \<le> sendto_ret (att 0)" and "attempt_result_ext (att 0) \<noteq> 0"
    and "attempt_result_ext (att 0) \<noteq> 2"
  shows "sends (loop_state (retry_loop_ext att t port pl n svc rfc 0 st)) =
     sends st @ [Sys_sendto t port (probe_bytes pl n), Sys_sendto t port (probe_bytes pl n)]"
  using assms
  by (simp add: ext_retry_loop_unroll Let_def ext_sp_fst ext_rr_fst loop_state_def sends_emit
        ext_sp_sends ext_rr_sends)

lemma ext_retry_loop_sends_le:
  "length (sends (loop_state (retry_loop_ext att t port pl n svc rfc 0 st)))
     \<le> length (sends st) + 2"
  by (simp add: ext_retry_loop_unroll Let_def loop_state_def sends_emit ext_sp_sends ext_rr_sends)

lemma ext_one_attempt_sends:
  "sends (one_attempt_ext a t port pl n svc rfc st) =
     sends st @ [Sys_sendto t port (probe_bytes pl n)]"
  by (simp add: one_attempt_ext_def ext_rr_sends ext_sp_sends)

lemma ext_one_attempt_selects:
  "selects (one_attempt_ext a t port pl n svc rfc st) =
     selects st @ [Sys_select TIMEOUT_SEC TIMEOUT_USEC]"
  by (simp add: one_attempt_ext_def ext_rr_selects ext_sp_selects)

lemma ext_one_attempt_none:
  assumes "attempt_result_ext a = -1"
  shows "stats (one_attempt_ext a t port pl n svc rfc st) = stats st"
    and "stdout_lines (one_attempt_ext a t port pl n svc rfc st) = stdout_lines st"
  using assms
  by (simp_all add: one_attempt_ext_def ext_rr_stats_none ext_rr_stdout_none ext_sp_stats
        ext_sp_stdout)

lemma ext_retry_loop_total:
  "total_ports (stats (loop_state (retry_loop_ext att t port pl n svc rfc 0 st))) = total_ports (stats st)"
  by (simp add: ext_retry_loop_unroll Let_def loop_state_def stats_emit ext_rr_total ext_sp_stats)

lemma ext_retry_loop_send_fails:
  "sendto_ret (att 0) < 0 \<Longrightarrow>
   stats (loop_state (retry_loop_ext att t port pl n svc rfc 0 st)) = stats st"
  by (simp add: ext_retry_loop_unroll Let_def loop_state_def stats_emit ext_sp_stats ext_sp_fst)

lemma ext_scan_no_udp_socket:
  "udp_socket_ret pe < 0 \<Longrightarrow>
   scan_udp_port_ext probes pe t port st =
     emit Sys_socket_dgram st"
  by (simp add: scan_udp_port_ext_def Let_def)

lemma ext_scan_no_raw_socket:
  "0 \<le> udp_socket_ret pe \<Longrightarrow> icmp_socket_ret pe < 0 \<Longrightarrow>
   scan_udp_port_ext probes pe t port st =
     emit Sys_close_udp (emit Sys_socket_raw (emit Sys_socket_dgram st))"
  by (simp add: scan_udp_port_ext_def Let_def)

lemma ext_scan_sockets_ok:
  assumes "0 \<le> udp_socket_ret pe" "0 \<le> icmp_socket_ret pe"
  obtains pl n svc rfc where
    "scan_udp_port_ext probes pe t port st =
       (case retry_loop_ext (attempts pe) t port pl n svc rfc 0
               (emit Sys_socket_raw (emit Sys_socket_dgram st)) of
          Inl s \<Rightarrow> s | Inr s \<Rightarrow> emit Sys_close_icmp (emit Sys_close_udp s))"
  using assms by (cases "get_probe_for_port_ext probes port") (simp_all add: scan_udp_port_ext_def Let_def)

lemma ext_scan_total:
  "total_ports (stats (scan_udp_port_ext probes pe t port st)) = total_ports (stats st)"
proof -
  consider "udp_socket_ret pe < 0" | "0 \<le> udp_socket_ret pe" "icmp_socket_ret pe < 0"
    | "0 \<le> udp_socket_ret pe" "0 \<le> icmp_socket_ret pe" by linarith
  then show ?thesis
  proof cases
    case 1 then show ?thesis by (simp add: ext_scan_no_udp_socket stats_emit)
  next
    case 2 then show ?thesis by (simp add: ext_scan_no_raw_socket stats_emit)
  next
    case 3
    from ext_scan_sockets_ok [OF 3] obtain pl n svc rfc where
      eq: "scan_udp_port_ext probes pe t port st =
       (case retry_loop_ext (attempts pe) t port pl n svc rfc 0
               (emit Sys_socket_raw (emit Sys_socket_dgram st)) of
          Inl s \<Rightarrow> s | Inr s \<Rightarrow> emit Sys_close_icmp (emit Sys_close_udp s))" .
    show ?thesis
      using ext_retry_loop_total [of "attempts pe" t port pl n svc rfc
          "emit Sys_socket_raw (emit Sys_socket_dgram st)"]
      by (simp add: eq loop_state_def stats_emit split: sum.splits)
  qed
qed

lemma ext_scan_aborted_stats:
  assumes "udp_socket_ret pe < 0 \<or> icmp_socket_ret pe < 0 \<or> sendto_ret (attempts pe 0) < 0"
  shows "stats (scan_udp_port_ext probes pe t port st) = stats st"
proof -
  consider "udp_socket_ret pe < 0" | "0 \<le> udp_socket_ret pe" "icmp_socket_ret pe < 0"
    | "0 \<le> udp_socket_ret pe" "0 \<le> icmp_socket_ret pe" by linarith
  then show ?thesis
  proof cases
    case 1 then show ?thesis by (simp add: ext_scan_no_udp_socket stats_emit)
  next
    case 2 then show ?thesis by (simp add: ext_scan_no_raw_socket stats_emit)
  next
    case 3
    with assms have sf: "sendto_ret (attempts pe 0) < 0" by simp
    from ext_scan_sockets_ok [OF 3] obtain pl n svc rfc where
      eq: "scan_udp_port_ext probes pe t port st =
       (case retry_loop_ext (attempts pe) t port pl n svc rfc 0
               (emit Sys_socket_raw (emit Sys_socket_dgram st)) of
          Inl s \<Rightarrow> s | Inr s \<Rightarrow> emit Sys_close_icmp (emit Sys_close_udp s))" .
    show ?thesis
      using sf ext_retry_loop_send_fails [of "attempts pe" t port pl n svc rfc
          "emit Sys_socket_raw (emit Sys_socket_dgram st)"]
      by (simp add: eq loop_state_def stats_emit split: sum.splits)
  qed
qed

lemma ext_port_loop_total:
  "total_ports (stats (port_loop_ext probes envs t s e st)) =
     total_ports (stats st) + (if s \<le> e then e - s + 1 else 0)"
proof (induction probes envs t s e st rule: port_loop_ext.induct)
  case (1 probes envs t s e st)
  show ?case
  proof (cases "s \<le> e")
    case True
    with 1 show ?thesis
      by (subst port_loop_ext.simps) (simp add: stats_emit inc_stats ext_scan_total)
  next
    case False
    then show ?thesis by (subst port_loop_ext.simps) simp
  qed
qed

lemma ext_port_loop_aborted_stats:
  assumes "\<forall>p. s \<le> p \<and> p \<le> e \<longrightarrow>
     udp_socket_ret (envs p) < 0 \<or> icmp_socket_ret (envs p) < 0
       \<or> sendto_ret (attempts (envs p) 0) < 0"
  shows "open_ports (stats (port_loop_ext probes envs t s e st)) = open_ports (stats st)
     \<and> closed_ports (stats (port_loop_ext probes envs t s e st)) = closed_ports (stats st)
     \<and> filtered_ports (stats (port_loop_ext probes envs t s e st)) = filtered_ports (stats st)"
  using assms
proof (induction probes envs t s e st rule: port_loop_ext.induct)
  case (1 probes envs t s e st)
  show ?case
  proof (cases "s \<le> e")
    case True
    have ab: "udp_socket_ret (envs s) < 0 \<or> icmp_socket_ret (envs s) < 0
       \<or> sendto_ret (attempts (envs s) 0) < 0"
      using "1.prems" True by simp
    have rest: "\<forall>p. s + 1 \<le> p \<and> p \<le> e \<longrightarrow>
       udp_socket_ret (envs p) < 0 \<or> icmp_socket_ret (envs p) < 0
         \<or> sendto_ret (attempts (envs p) 0) < 0"
      using "1.prems" by simp
    from "1.IH" [OF True rest] show ?thesis
      by (subst (1 2 3) port_loop_ext.simps)
         (simp add: True stats_emit inc_stats ext_scan_aborted_stats [OF ab])
  next
    case False
    then show ?thesis by (subst (1 2 3) port_loop_ext.simps) simp
  qed
qed

lemma ext_scan_two:
  assumes "0 \<le> udp_socket_ret pe" and "0 \<le> icmp_socket_ret pe"
    and "0 \<le> sendto_ret (attempts pe 0)"
    and "attempt_result_ext (attempts pe 0) \<noteq> 0" and "attempt_result_ext (attempts pe 0) \<noteq> 2"
    and "0 \<le> sendto_ret (attempts pe 1)"
  obtains pl n svc rfc where
    "scan_udp_port_ext probes pe t port st =
       emit Sys_close_icmp (emit Sys_close_udp
         (one_attempt_ext (attempts pe 1) t port pl n svc rfc
            (one_attempt_ext (attempts pe 0) t port pl n svc rfc
               (emit Sys_socket_raw (emit Sys_socket_dgram st)))))"
proof -
  from ext_scan_sockets_ok [OF assms(1,2)] obtain pl n svc rfc where
    eq: "scan_udp_port_ext probes pe t port st =
       (case retry_loop_ext (attempts pe) t port pl n svc rfc 0
               (emit Sys_socket_raw (emit Sys_socket_dgram st)) of
          Inl s \<Rightarrow> s | Inr s \<Rightarrow> emit Sys_close_icmp (emit Sys_close_udp s))" .
  show ?thesis
    using ext_retry_loop_two [of "attempts pe", OF assms(3,4,5,6)]
    by (intro that [of pl n svc rfc]) (simp add: eq)
qed

lemma ext_scan_no_verdict:
  assumes "0 \<le> udp_socket_ret pe" and "0 \<le> icmp_socket_ret pe"
    and "0 \<le> sendto_ret (attempts pe 0)" and "attempt_result_ext (attempts pe 0) = -1"
    and "0 \<le> sendto_ret (attempts pe 1)" and "attempt_result_ext (attempts pe 1) = -1"
  shows "stats (scan_udp_port_ext probes pe t port st) = stats st
     \<and> stdout_lines (scan_udp_port_ext probes pe t port st) = stdout_lines st
     \<and> length (sends (scan_udp_port_ext probes pe t port st)) = length (sends st) + MAX_RETRIES"
proof -
  have r: "attempt_result_ext (attempts pe 0) \<noteq> 0" "attempt_result_ext (attempts pe 0) \<noteq> 2"
    using assms(4) by simp_all
  from ext_scan_two [OF assms(1,2,3) r assms(5)] obtain pl n svc rfc where
    "scan_udp_port_ext probes pe t port st =
       emit Sys_close_icmp (emit Sys_close_udp
         (one_attempt_ext (attempts pe 1) t port pl n svc rfc
            (one_attempt_ext (attempts pe 0) t port pl n svc rfc
               (emit Sys_socket_raw (emit Sys_socket_dgram st)))))" .
  then show ?thesis
    using assms(4,6)
    by (simp add: stats_emit stdout_emit sends_emit ext_one_attempt_none ext_one_attempt_sends
          MAX_RETRIES_def)
qed

lemma ext_port_loop_no_raw:
  assumes "\<forall>p. s \<le> p \<and> p \<le> e \<longrightarrow> 0 \<le> udp_socket_ret (envs p) \<and> icmp_socket_ret (envs p) < 0"
  shows "sends (port_loop_ext probes envs t s e st) = sends st
     \<and> stdout_lines (port_loop_ext probes envs t s e st) = stdout_lines st
     \<and> set (trace st) \<subseteq> set (trace (port_loop_ext probes envs t s e st))"
  using assms
proof (induction probes envs t s e st rule: port_loop_ext.induct)
  case (1 probes envs t s e st)
  show ?case
  proof (cases "s \<le> e")
    case True
    have nr: "0 \<le> udp_socket_ret (envs s)" "icmp_socket_ret (envs s) < 0"
      using "1.prems" True by simp_all
    have rest: "\<forall>p. s + 1 \<le> p \<and> p \<le> e \<longrightarrow>
        0 \<le> udp_socket_ret (envs p) \<and> icmp_socket_ret (envs p) < 0"
      using "1.prems" by simp
    from "1.IH" [OF True rest] show ?thesis
      by (subst (1 2 3) port_loop_ext.simps)
         (auto simp: True ext_scan_no_raw_socket [OF nr] sends_emit stdout_emit trace_emit
            inc_sends inc_stdout inc_trace)
  next
    case False
    then show ?thesis by (subst (1 2 3) port_loop_ext.simps) simp
  qed
qed

lemma ext_ri_fst_eq:
  "fst (receive_icmp_ext a buf port st) = fst (receive_icmp a buf port st)"
  by (simp add: receive_icmp_ext_def receive_icmp_def Let_def)

lemma attempt_result_ext_eq: "attempt_result_ext a = attempt_result a"
proof (cases a rule: attempt_cases)
  case 1 then show ?thesis
    by (simp add: attempt_result_ext_def attempt_result_def ext_rr_select_err rr_select_err)
next
  case 2 then show ?thesis
    by (simp add: attempt_result_ext_def attempt_result_def ext_rr_timeout rr_timeout)
next
  case 3 then show ?thesis
    by (simp add: attempt_result_ext_def attempt_result_def ext_rr_udp_data rr_udp_data)
next
  case 4 then show ?thesis
    by (simp add: attempt_result_ext_def attempt_result_def ext_rr_to_icmp rr_to_icmp
          ext_ri_fst_eq)
qed

section \<open>Whole runs\<close>

lemma stats_init:
  "total_ports (stats init_state) = 0" "open_ports (stats init_state) = 0"
  "closed_ports (stats init_state) = 0" "filtered_ports (stats init_state) = 0"
  by (simp_all add: init_state_def)

lemma print_statistics_proj:
  "stats (print_statistics st) = stats st" "sends (print_statistics st) = sends st"
  "sockets (print_statistics st) = sockets st"
  "stdout_lines (print_statistics st) =
     stdout_lines st @ [Print_statistics (total_ports (stats st)) (open_ports (stats st))
                          (closed_ports (stats st)) (filtered_ports (stats st))]"
  "trace (print_statistics st) =
     trace st @ [Print_statistics (total_ports (stats st)) (open_ports (stats st))
                   (closed_ports (stats st)) (filtered_ports (stats st))]"
  by (simp_all add: print_statistics_def stats_emit sends_emit sockets_emit stdout_emit trace_emit)

lemma start_state_proj:
  "stats (start_state w) = stats init_state" "sends (start_state w) = []"
  "stdout_lines (start_state w) = []"
  "geteuid w \<noteq> 0 \<Longrightarrow> Eprint_not_root \<in> set (trace (start_state w))"
  by (simp_all add: start_state_def stats_emit sends_emit stdout_emit trace_emit sends_init
        stdout_init)

lemma main_invalid:
  assumes "length argv = 4"
    and "atoi w (argv ! 2) < 1 \<or> 65535 < atoi w (argv ! 3) \<or> atoi w (argv ! 3) < atoi w (argv ! 2)"
  shows "main w probes argv = (1, emit Eprint_invalid_range init_state)"
    and "main_ext w xprobes argv = (1, emit Eprint_invalid_range init_state)"
  using assms by (auto simp: main_def main_ext_def Let_def)

lemma main_valid:
  assumes "length argv = 4" and "1 \<le> atoi w (argv ! 2)"
    and "atoi w (argv ! 2) \<le> atoi w (argv ! 3)" and "atoi w (argv ! 3) \<le> 65535"
  shows "main w probes argv =
     (0, print_statistics
           (port_loop probes (port_envs w) (argv ! 1) (atoi w (argv ! 2)) (atoi w (argv ! 3))
              (emit (Print_banner (argv ! 1) (atoi w (argv ! 2)) (atoi w (argv ! 3)))
                 (start_state w))))"
    and "main_ext w xprobes argv =
     (0, print_statistics
           (port_loop_ext xprobes (port_envs w) (argv ! 1) (atoi w (argv ! 2))
              (atoi w (argv ! 3))
              (emit (Print_banner_ext (argv ! 1) (atoi w (argv ! 2)) (atoi w (argv ! 3)))
                 (start_state w))))"
  using assms by (simp_all add: main_def main_ext_def Let_def start_state_def)

section \<open>The classifier\<close>

text \<open>
  C1. When the classifier reads the raw socket (the wait returned with a socket ready
  and the UDP socket gave no data) and the datagram read is an ICMP "destination
  unreachable", the return value stands for Closed if the code is "port unreachable"
  and the matching line is printed; for every other code it stands for Filtered, and
  the line printed carries the type and the code (\<^verbatim>\<open>udp_scanner.c\<close>) or the code
  (\<^verbatim>\<open>udp_scanner_extended.c\<close>).
\<close>

theorem icmp_unreachable_verdict:
  assumes "0 < select_ret a" and "\<not> (udp_isset a \<and> 0 < recv_n (udp_recv a))"
    and "icmp_isset a" and "icmp_recv a = Recv_data d"
    and "dgram_icmp_type d = Some ICMP_UNREACH" and "dgram_icmp_code d = Some c"
  shows "(c = ICMP_UNREACH_PORT \<longrightarrow>
            verdict_of (fst (receive_response a port svc st)) = Some Closed
          \<and> last (trace (snd (receive_response a port svc st))) = Print_closed port
          \<and> verdict_of (fst (receive_response_ext a port svc rfc st)) = Some Closed
          \<and> last (trace (snd (receive_response_ext a port svc rfc st))) = Print_closed_ext port)
       \<and> (c \<noteq> ICMP_UNREACH_PORT \<longrightarrow>
            verdict_of (fst (receive_response a port svc st)) = Some Filtered
          \<and> last (trace (snd (receive_response a port svc st)))
              = Print_filtered port ICMP_UNREACH c
          \<and> verdict_of (fst (receive_response_ext a port svc rfc st)) = Some Filtered
          \<and> last (trace (snd (receive_response_ext a port svc rfc st)))
              = Print_filtered_ext port c)"
proof -
  have b: "receive_response a port svc st =
     (if c = ICMP_UNREACH_PORT
      then (2, inc_closed (emit (Print_closed port) (emit Sys_recvfrom_icmp (pre_icmp a st))))
      else (3, inc_filtered (emit (Print_filtered port ICMP_UNREACH c)
                 (emit Sys_recvfrom_icmp (pre_icmp a st)))))"
    using assms by (simp add: rr_to_icmp ri_unreach)
  have x: "receive_response_ext a port svc rfc st =
     (if c = ICMP_UNREACH_PORT
      then (2, inc_closed (emit (Print_closed_ext port) (emit Sys_recvfrom_icmp (pre_icmp a st))))
      else (3, inc_filtered (emit (Print_filtered_ext port c)
                 (emit Sys_recvfrom_icmp (pre_icmp a st)))))"
    using assms by (simp add: ext_rr_to_icmp ext_ri_unreach)
  show ?thesis
    by (simp add: b x verdict_of_def inc_trace trace_emit)
qed

theorem icmp_unreachable_verdict_witness:
  "0 < select_ret (env_icmp 3 1)
   \<and> \<not> (udp_isset (env_icmp 3 1) \<and> 0 < recv_n (udp_recv (env_icmp 3 1)))
   \<and> icmp_isset (env_icmp 3 1)
   \<and> dgram_icmp_type (icmp_dgram 3 1) = Some ICMP_UNREACH
   \<and> dgram_icmp_code (icmp_dgram 3 1) = Some 1
   \<and> verdict_of (fst (receive_response (env_icmp 3 1) 53 (Some ''DNS'') init_state))
       = Some Filtered
   \<and> last (trace (snd (receive_response (env_icmp 3 1) 53 (Some ''DNS'') init_state)))
       = Print_filtered 53 3 1
   \<and> last (trace (snd (receive_response_ext (env_icmp 3 1) 53 (Some ''DNS'')
                          (Some ''RFC 1035'') init_state)))
       = Print_filtered_ext 53 1
   \<and> verdict_of (fst (receive_response (env_icmp 3 3) 53 (Some ''DNS'') init_state))
       = Some Closed"
proof -
  have h: "0 < select_ret (env_icmp 3 k)"
    "\<not> (udp_isset (env_icmp 3 k) \<and> 0 < recv_n (udp_recv (env_icmp 3 k)))"
    "icmp_isset (env_icmp 3 k)" "icmp_recv (env_icmp 3 k) = Recv_data (icmp_dgram 3 k)"
    "dgram_icmp_type (icmp_dgram 3 k) = Some ICMP_UNREACH"
    "dgram_icmp_code (icmp_dgram 3 k) = Some k" for k
    by (simp_all add: env_icmp_def icmp_dgram_def dgram_icmp_type_def dgram_icmp_code_def
          ICMP_UNREACH_def)
  show ?thesis
    using icmp_unreachable_verdict [OF h, of 1 53 "Some ''DNS''" init_state "Some ''RFC 1035''"]
      icmp_unreachable_verdict [OF h, of 3 53 "Some ''DNS''" init_state None]
    by (simp add: h ICMP_UNREACH_def ICMP_UNREACH_PORT_def)
qed

text \<open>
  C2, as the code has it. When the wait returns with the UDP socket ready, the
  classifier's return value stands for Open exactly when the datagram read has a
  positive byte count; the line printed then carries that count and \<open>open_ports\<close>
  grows by one. A reply of zero bytes is not Open: the classifier goes on to the raw
  socket.
\<close>

theorem udp_reply_open_iff_positive:
  assumes "0 < select_ret a" and "udp_isset a"
  shows "(verdict_of (fst (receive_response a port svc st)) = Some Open
            \<longleftrightarrow> 0 < recv_n (udp_recv a))
       \<and> (verdict_of (fst (receive_response_ext a port svc rfc st)) = Some Open
            \<longleftrightarrow> 0 < recv_n (udp_recv a))
       \<and> (0 < recv_n (udp_recv a) \<longrightarrow>
            last (trace (snd (receive_response a port svc st)))
              = Print_open port (or_unknown svc) (recv_n (udp_recv a))
          \<and> last (trace (snd (receive_response_ext a port svc rfc st)))
              = Print_open_ext port (or_unknown svc) (or_empty rfc) (recv_n (udp_recv a))
          \<and> open_ports (stats (snd (receive_response a port svc st)))
              = open_ports (stats st) + 1
          \<and> open_ports (stats (snd (receive_response_ext a port svc rfc st)))
              = open_ports (stats st) + 1)
       \<and> (recv_n (udp_recv a) \<le> 0 \<longrightarrow>
            receive_response a port svc st = receive_icmp a (pre_buf a) port (pre_icmp a st)
          \<and> receive_response_ext a port svc rfc st
              = receive_icmp_ext a (pre_buf a) port (pre_icmp a st))"
proof (cases "0 < recv_n (udp_recv a)")
  case True
  with assms show ?thesis
    by (simp add: rr_udp_data ext_rr_udp_data verdict_of_def inc_trace trace_emit inc_stats
          stats_emit)
next
  case False
  have "fst (receive_icmp a (pre_buf a) port (pre_icmp a st)) \<in> {-1, 2, 3}"
    by (rule ri_fst_range)
  moreover have "fst (receive_icmp_ext a (pre_buf a) port (pre_icmp a st)) \<in> {-1, 2, 3}"
    by (rule ext_ri_fst_range)
  ultimately show ?thesis using assms False
    by (auto simp: rr_to_icmp ext_rr_to_icmp verdict_of_def)
qed

theorem udp_reply_open_iff_positive_witness:
  "0 < select_ret env_udp_reply \<and> udp_isset env_udp_reply
   \<and> recv_n (udp_recv env_udp_reply) = 5
   \<and> verdict_of (fst (receive_response env_udp_reply 53 (Some ''DNS'') init_state)) = Some Open
   \<and> last (trace (snd (receive_response env_udp_reply 53 (Some ''DNS'') init_state)))
       = Print_open 53 ''DNS'' 5
   \<and> open_ports (stats (snd (receive_response env_udp_reply 53 (Some ''DNS'') init_state))) = 1"
proof -
  have h: "0 < select_ret env_udp_reply" "udp_isset env_udp_reply"
    by (simp_all add: env_udp_reply_def)
  have n: "recv_n (udp_recv env_udp_reply) = 5"
    by (simp add: env_udp_reply_def MAX_PACKET_SIZE_def)
  show ?thesis
    using udp_reply_open_iff_positive [OF h, of 53 "Some ''DNS''" init_state None]
    by (simp add: h n or_unknown_def init_state_def)
qed

text \<open>
  C2 as stated fails on a reply of zero bytes: with the UDP socket ready, a datagram of
  length 0 and nothing on the raw socket, both programs return \<open>-1\<close>, print no line
  and leave \<open>open_ports\<close> at 0.
\<close>

theorem zero_length_reply_counterexample:
  "0 < select_ret env_udp_empty \<and> udp_isset env_udp_empty
   \<and> recv_n (udp_recv env_udp_empty) = 0
   \<and> fst (receive_response env_udp_empty 53 (Some ''DNS'') init_state) = -1
   \<and> verdict_of (fst (receive_response env_udp_empty 53 (Some ''DNS'') init_state)) \<noteq> Some Open
   \<and> stdout_lines (snd (receive_response env_udp_empty 53 (Some ''DNS'') init_state)) = []
   \<and> open_ports (stats (snd (receive_response env_udp_empty 53 (Some ''DNS'') init_state))) = 0
   \<and> fst (receive_response_ext env_udp_empty 53 (Some ''DNS'') (Some ''RFC 1035'') init_state)
       = -1
   \<and> stdout_lines (snd (receive_response_ext env_udp_empty 53 (Some ''DNS'')
                           (Some ''RFC 1035'') init_state)) = []"
  by (simp add: receive_response_def receive_response_ext_def receive_icmp_def
        receive_icmp_ext_def env_udp_empty_def Let_def verdict_of_def stdout_lines_def
        emit_def init_state_def)

text \<open>
  C3. When the wait returns 0 (the timeout passed with neither socket ready), the
  return value stands for OpenOrFiltered and the open|filtered line is printed, for
  every port and service name; the probe sent plays no part.
\<close>

theorem timeout_open_or_filtered:
  assumes "select_ret a = 0"
  shows "verdict_of (fst (receive_response a port svc st)) = Some OpenOrFiltered
       \<and> last (trace (snd (receive_response a port svc st)))
           = Print_open_filtered port (or_unknown svc)
       \<and> verdict_of (fst (receive_response_ext a port svc rfc st)) = Some OpenOrFiltered
       \<and> last (trace (snd (receive_response_ext a port svc rfc st)))
           = Print_open_filtered_ext port (or_unknown svc) (or_empty rfc)"
  using assms
  by (simp add: rr_timeout ext_rr_timeout verdict_of_def inc_trace trace_emit)

theorem timeout_open_or_filtered_witness:
  "select_ret env_timeout = 0
   \<and> verdict_of (fst (receive_response env_timeout 54 None init_state)) = Some OpenOrFiltered
   \<and> last (trace (snd (receive_response env_timeout 54 None init_state)))
       = Print_open_filtered 54 ''unknown''"
proof -
  have h: "select_ret env_timeout = 0" by (simp add: env_timeout_def)
  show ?thesis
    using timeout_open_or_filtered [OF h, of 54 None init_state None]
    by (simp add: h or_unknown_def)
qed

text \<open>
  C4, as the code has it. When the datagram read from the raw socket has an ICMP type
  other than "destination unreachable", the classifier returns \<open>-1\<close> at once: no
  verdict, no line, no counter, and the one wait it made is its only one. The attempt
  is over, and what follows is the retry loop's. When the datagram was read on the
  first attempt, the probe is sent again, and if that send succeeds the second attempt
  waits with the full timeout. When it was read on the second attempt, the loop is left
  right after the read: two probes sent, two waits made, nothing more.
\<close>

theorem other_icmp_ends_attempt:
  assumes "0 < select_ret a"
    and "\<not> (udp_isset a \<and> 0 < recv_n (udp_recv a))"
    and "icmp_isset a" and "icmp_recv a = Recv_data d"
    and "dgram_icmp_type d = Some ty" and "ty \<noteq> ICMP_UNREACH"
  shows "receive_response a port svc st = (-1, emit Sys_recvfrom_icmp (pre_icmp a st))
       \<and> receive_response_ext a port svc rfc st = (-1, emit Sys_recvfrom_icmp (pre_icmp a st))
       \<and> verdict_of (-1) = None
       \<and> stats (emit Sys_recvfrom_icmp (pre_icmp a st)) = stats st
       \<and> stdout_lines (emit Sys_recvfrom_icmp (pre_icmp a st)) = stdout_lines st
       \<and> selects (emit Sys_recvfrom_icmp (pre_icmp a st))
           = selects st @ [Sys_select TIMEOUT_SEC TIMEOUT_USEC]
       \<and> (att 0 = a \<and> 0 \<le> sendto_ret (att 0) \<longrightarrow>
            sends (loop_state (retry_loop att t port pl n svc 0 st))
              = sends st @ [Sys_sendto t port (probe_bytes pl n),
                            Sys_sendto t port (probe_bytes pl n)]
          \<and> sends (loop_state (retry_loop_ext att t port pl n svc rfc 0 st))
              = sends st @ [Sys_sendto t port (probe_bytes pl n),
                            Sys_sendto t port (probe_bytes pl n)])
       \<and> (att 0 = a \<and> 0 \<le> sendto_ret (att 0) \<and> 0 \<le> sendto_ret (att 1) \<longrightarrow>
            selects (loop_state (retry_loop att t port pl n svc 0 st))
              = selects st @ [Sys_select TIMEOUT_SEC TIMEOUT_USEC,
                              Sys_select TIMEOUT_SEC TIMEOUT_USEC]
          \<and> selects (loop_state (retry_loop_ext att t port pl n svc rfc 0 st))
              = selects st @ [Sys_select TIMEOUT_SEC TIMEOUT_USEC,
                              Sys_select TIMEOUT_SEC TIMEOUT_USEC])
       \<and> (att 1 = a \<and> 0 \<le> sendto_ret (att 0) \<and> attempt_result (att 0) \<noteq> 0
            \<and> attempt_result (att 0) \<noteq> 2 \<and> 0 \<le> sendto_ret (att 1) \<longrightarrow>
            last (trace (loop_state (retry_loop att t port pl n svc 0 st))) = Sys_recvfrom_icmp
          \<and> sends (loop_state (retry_loop att t port pl n svc 0 st))
              = sends st @ [Sys_sendto t port (probe_bytes pl n),
                            Sys_sendto t port (probe_bytes pl n)]
          \<and> selects (loop_state (retry_loop att t port pl n svc 0 st))
              = selects st @ [Sys_select TIMEOUT_SEC TIMEOUT_USEC,
                              Sys_select TIMEOUT_SEC TIMEOUT_USEC]
          \<and> last (trace (loop_state (retry_loop_ext att t port pl n svc rfc 0 st)))
              = Sys_recvfrom_icmp
          \<and> sends (loop_state (retry_loop_ext att t port pl n svc rfc 0 st))
              = sends st @ [Sys_sendto t port (probe_bytes pl n),
                            Sys_sendto t port (probe_bytes pl n)]
          \<and> selects (loop_state (retry_loop_ext att t port pl n svc rfc 0 st))
              = selects st @ [Sys_select TIMEOUT_SEC TIMEOUT_USEC,
                              Sys_select TIMEOUT_SEC TIMEOUT_USEC])"
proof -
  have b: "receive_response a port svc st = (-1, emit Sys_recvfrom_icmp (pre_icmp a st))"
    for port svc st
    using assms by (simp add: rr_to_icmp ri_other)
  have x: "receive_response_ext a port svc rfc st
             = (-1, emit Sys_recvfrom_icmp (pre_icmp a st))" for port svc rfc st
    using assms by (simp add: ext_rr_to_icmp ext_ri_other)
  have rb: "attempt_result a = -1"
    by (simp add: attempt_result_def b)
  have rx: "attempt_result_ext a = -1"
    by (simp add: attempt_result_ext_def x)
  have first_sends: "sends (loop_state (retry_loop att t port pl n svc 0 st))
              = sends st @ [Sys_sendto t port (probe_bytes pl n),
                            Sys_sendto t port (probe_bytes pl n)]
          \<and> sends (loop_state (retry_loop_ext att t port pl n svc rfc 0 st))
              = sends st @ [Sys_sendto t port (probe_bytes pl n),
                            Sys_sendto t port (probe_bytes pl n)]"
    if s: "att 0 = a \<and> 0 \<le> sendto_ret (att 0)"
  proof -
    from s rb rx have r: "attempt_result (att 0) \<noteq> 0" "attempt_result (att 0) \<noteq> 2"
      "attempt_result_ext (att 0) \<noteq> 0" "attempt_result_ext (att 0) \<noteq> 2"
      and s0: "0 \<le> sendto_ret (att 0)"
      by auto
    show ?thesis
      using retry_loop_two_sends [of att, OF s0 r(1,2)]
        ext_retry_loop_two_sends [of att, OF s0 r(3,4)]
      by simp
  qed
  have first_selects: "selects (loop_state (retry_loop att t port pl n svc 0 st))
              = selects st @ [Sys_select TIMEOUT_SEC TIMEOUT_USEC,
                              Sys_select TIMEOUT_SEC TIMEOUT_USEC]
          \<and> selects (loop_state (retry_loop_ext att t port pl n svc rfc 0 st))
              = selects st @ [Sys_select TIMEOUT_SEC TIMEOUT_USEC,
                              Sys_select TIMEOUT_SEC TIMEOUT_USEC]"
    if s: "att 0 = a \<and> 0 \<le> sendto_ret (att 0) \<and> 0 \<le> sendto_ret (att 1)"
  proof -
    from s rb rx have r: "attempt_result (att 0) \<noteq> 0" "attempt_result (att 0) \<noteq> 2"
      "attempt_result_ext (att 0) \<noteq> 0" "attempt_result_ext (att 0) \<noteq> 2"
      and s0: "0 \<le> sendto_ret (att 0)" and s1: "0 \<le> sendto_ret (att 1)"
      by auto
    show ?thesis
      using retry_loop_two [of att, OF s0 r(1,2) s1] ext_retry_loop_two [of att, OF s0 r(3,4) s1]
      by (simp add: loop_state_def one_attempt_selects ext_one_attempt_selects)
  qed
  have second: "last (trace (loop_state (retry_loop att t port pl n svc 0 st)))
              = Sys_recvfrom_icmp
          \<and> sends (loop_state (retry_loop att t port pl n svc 0 st))
              = sends st @ [Sys_sendto t port (probe_bytes pl n),
                            Sys_sendto t port (probe_bytes pl n)]
          \<and> selects (loop_state (retry_loop att t port pl n svc 0 st))
              = selects st @ [Sys_select TIMEOUT_SEC TIMEOUT_USEC,
                              Sys_select TIMEOUT_SEC TIMEOUT_USEC]
          \<and> last (trace (loop_state (retry_loop_ext att t port pl n svc rfc 0 st)))
              = Sys_recvfrom_icmp
          \<and> sends (loop_state (retry_loop_ext att t port pl n svc rfc 0 st))
              = sends st @ [Sys_sendto t port (probe_bytes pl n),
                            Sys_sendto t port (probe_bytes pl n)]
          \<and> selects (loop_state (retry_loop_ext att t port pl n svc rfc 0 st))
              = selects st @ [Sys_select TIMEOUT_SEC TIMEOUT_USEC,
                              Sys_select TIMEOUT_SEC TIMEOUT_USEC]"
    if s: "att 1 = a \<and> 0 \<le> sendto_ret (att 0) \<and> attempt_result (att 0) \<noteq> 0
            \<and> attempt_result (att 0) \<noteq> 2 \<and> 0 \<le> sendto_ret (att 1)"
  proof -
    from s have r: "attempt_result (att 0) \<noteq> 0" "attempt_result (att 0) \<noteq> 2"
      "attempt_result_ext (att 0) \<noteq> 0" "attempt_result_ext (att 0) \<noteq> 2"
      and s0: "0 \<le> sendto_ret (att 0)" and s1: "0 \<le> sendto_ret (att 1)"
      and a1: "att 1 = a"
      by (auto simp: attempt_result_ext_eq)
    have lb: "last (trace (one_attempt (att 1) t port pl n svc st')) = Sys_recvfrom_icmp"
      for st'
      unfolding a1 by (simp add: one_attempt_def b trace_emit)
    have lx: "last (trace (one_attempt_ext (att 1) t port pl n svc rfc st'))
        = Sys_recvfrom_icmp" for st'
      unfolding a1 by (simp add: one_attempt_ext_def x trace_emit)
    show ?thesis
      unfolding retry_loop_two [of att, OF s0 r(1,2) s1]
        ext_retry_loop_two [of att, OF s0 r(3,4) s1]
      by (simp only: loop_state_def sum.case lb lx one_attempt_sends one_attempt_selects
            ext_one_attempt_sends ext_one_attempt_selects append_assoc append.simps simp_thms)
  qed
  have cls: "verdict_of (-1) = None
       \<and> stats (emit Sys_recvfrom_icmp (pre_icmp a st)) = stats st
       \<and> stdout_lines (emit Sys_recvfrom_icmp (pre_icmp a st)) = stdout_lines st
       \<and> selects (emit Sys_recvfrom_icmp (pre_icmp a st))
           = selects st @ [Sys_select TIMEOUT_SEC TIMEOUT_USEC]"
    by (simp add: verdict_of_def stats_emit stdout_emit selects_emit pre_icmp_proj)
  from b [of port svc st] x [of port svc rfc st] cls first_sends first_selects second
  show ?thesis by blast
qed

theorem other_icmp_ends_attempt_witness:
  "0 < select_ret (env_icmp 0 0)
   \<and> \<not> (udp_isset (env_icmp 0 0) \<and> 0 < recv_n (udp_recv (env_icmp 0 0)))
   \<and> icmp_isset (env_icmp 0 0)
   \<and> dgram_icmp_type (icmp_dgram 0 0) = Some 0 \<and> 0 \<noteq> ICMP_UNREACH
   \<and> 0 \<le> sendto_ret (env_icmp 0 0)
   \<and> attempt_result (env_icmp 0 0) = -1
   \<and> fst (receive_response (env_icmp 0 0) 54 None init_state) = -1
   \<and> stats (snd (receive_response (env_icmp 0 0) 54 None init_state)) = stats init_state
   \<and> stdout_lines (snd (receive_response (env_icmp 0 0) 54 None init_state)) = []
   \<and> sends (loop_state (retry_loop (\<lambda>i. env_icmp 0 0) ''10.0.0.1'' 54 empty_probe 0 None
                           0 init_state))
       = [Sys_sendto ''10.0.0.1'' 54 [], Sys_sendto ''10.0.0.1'' 54 []]
   \<and> selects (loop_state (retry_loop (\<lambda>i. env_icmp 0 0) ''10.0.0.1'' 54 empty_probe 0 None
                             0 init_state))
       = [Sys_select TIMEOUT_SEC TIMEOUT_USEC, Sys_select TIMEOUT_SEC TIMEOUT_USEC]
   \<and> last (trace (loop_state (retry_loop (\<lambda>i. env_icmp 0 0) ''10.0.0.1'' 54 empty_probe 0
                                 None 0 init_state)))
       = Sys_recvfrom_icmp"
proof -
  have h: "0 < select_ret (env_icmp 0 0)"
    "\<not> (udp_isset (env_icmp 0 0) \<and> 0 < recv_n (udp_recv (env_icmp 0 0)))"
    "icmp_isset (env_icmp 0 0)"
    "icmp_recv (env_icmp 0 0) = Recv_data (icmp_dgram 0 0)"
    "dgram_icmp_type (icmp_dgram 0 0) = Some 0" "(0::byte) \<noteq> ICMP_UNREACH"
    by (simp_all add: env_icmp_def icmp_dgram_def dgram_icmp_type_def ICMP_UNREACH_def)
  have s: "0 \<le> sendto_ret (env_icmp 0 0)" by (simp add: env_icmp_def)
  note inst = other_icmp_ends_attempt [OF h, where att = "\<lambda>i. env_icmp 0 0" and port = 54
      and svc = None and st = init_state and t = "''10.0.0.1''" and pl = empty_probe and n = 0
      and rfc = None]
  have r: "attempt_result (env_icmp 0 0) = -1"
    using other_icmp_ends_attempt [OF h, where port = 0 and svc = None and st = init_state]
    by (simp add: attempt_result_def)
  show ?thesis
    using inst h s r
    by (simp add: stats_emit stdout_emit pre_icmp_proj stdout_init sends_init selects_init
          probe_bytes_def)
qed

text \<open>
  C4 as stated fails on an ICMP echo reply (type 0): the classifier returns \<open>-1\<close>
  after one wait and one read. In the retry loop, a UDP reply that follows is seen only
  after the probe has been sent again and a second wait of the full
  \<^verbatim>\<open>TIMEOUT_SEC\<close> seconds has begun.
\<close>

theorem other_icmp_counterexample:
  "dgram_icmp_type (icmp_dgram 0 0) = Some 0 \<and> 0 \<noteq> ICMP_UNREACH
   \<and> receive_response (env_icmp 0 0) 54 None init_state
       = (-1, init_state\<lparr>trace := [Sys_select 2 0, Sys_recvfrom_icmp]\<rparr>)
   \<and> receive_response_ext (env_icmp 0 0) 54 None None init_state
       = (-1, init_state\<lparr>trace := [Sys_select 2 0, Sys_recvfrom_icmp]\<rparr>)
   \<and> trace (loop_state (retry_loop (\<lambda>i. if i = 0 then env_icmp 0 0 else env_udp_reply)
                           ''10.0.0.1'' 54 empty_probe 0 None 0 init_state))
       = [Sys_sendto ''10.0.0.1'' 54 [], Sys_select 2 0, Sys_recvfrom_icmp,
          Sys_sendto ''10.0.0.1'' 54 [], Sys_select 2 0, Sys_recvfrom_udp,
          Print_open 54 ''unknown'' 5]"
  by (simp add: retry_loop_unroll send_udp_probe_def receive_response_def
        receive_response_ext_def receive_icmp_def receive_icmp_ext_def env_icmp_def
        env_udp_reply_def icmp_dgram_def dgram_icmp_type_def icmp_type_def icmp_code_def
        ip_hl_def Let_def ICMP_UNREACH_def MAX_PACKET_SIZE_def TIMEOUT_SEC_def TIMEOUT_USEC_def
        emit_def inc_open_def init_state_def loop_state_def or_unknown_def)

section \<open>The retry loop\<close>

text \<open>
  The number of probes the retry loop sends. \<^verbatim>\<open>MAX_RETRIES\<close> is 2. When the
  first send succeeds: if the first attempt's return value stands for Open or Closed,
  the loop is left after that one attempt and exactly one probe has been sent; if it
  stands for OpenOrFiltered or Filtered, the same probe is sent exactly once more, and
  when that send succeeds the loop consists of the two attempts and nothing else. In
  no case are more than two probes sent.
\<close>

lemma retry_send_counts:
  assumes "0 \<le> sendto_ret (att 0)"
  shows "MAX_RETRIES = 2
     \<and> (verdict_of (attempt_result (att 0)) = Some Open
          \<or> verdict_of (attempt_result (att 0)) = Some Closed \<longrightarrow>
            retry_loop att t port pl n svc 0 st = Inr (one_attempt (att 0) t port pl n svc st)
          \<and> sends (loop_state (retry_loop att t port pl n svc 0 st))
              = sends st @ [Sys_sendto t port (probe_bytes pl n)])
     \<and> (verdict_of (attempt_result (att 0)) = Some OpenOrFiltered
          \<or> verdict_of (attempt_result (att 0)) = Some Filtered \<longrightarrow>
            sends (loop_state (retry_loop att t port pl n svc 0 st))
              = sends st @ [Sys_sendto t port (probe_bytes pl n),
                            Sys_sendto t port (probe_bytes pl n)]
          \<and> (0 \<le> sendto_ret (att 1) \<longrightarrow>
               retry_loop att t port pl n svc 0 st
                 = Inr (one_attempt (att 1) t port pl n svc
                          (one_attempt (att 0) t port pl n svc st))))
     \<and> length (sends (loop_state (retry_loop att t port pl n svc 0 st)))
          \<le> length (sends st) + 2
     \<and> (verdict_of (attempt_result_ext (att 0)) = Some Open
          \<or> verdict_of (attempt_result_ext (att 0)) = Some Closed \<longrightarrow>
            retry_loop_ext att t port pl n svc rfc 0 st
              = Inr (one_attempt_ext (att 0) t port pl n svc rfc st)
          \<and> sends (loop_state (retry_loop_ext att t port pl n svc rfc 0 st))
              = sends st @ [Sys_sendto t port (probe_bytes pl n)])
     \<and> (verdict_of (attempt_result_ext (att 0)) = Some OpenOrFiltered
          \<or> verdict_of (attempt_result_ext (att 0)) = Some Filtered \<longrightarrow>
            sends (loop_state (retry_loop_ext att t port pl n svc rfc 0 st))
              = sends st @ [Sys_sendto t port (probe_bytes pl n),
                            Sys_sendto t port (probe_bytes pl n)]
          \<and> (0 \<le> sendto_ret (att 1) \<longrightarrow>
               retry_loop_ext att t port pl n svc rfc 0 st
                 = Inr (one_attempt_ext (att 1) t port pl n svc rfc
                          (one_attempt_ext (att 0) t port pl n svc rfc st))))
     \<and> length (sends (loop_state (retry_loop_ext att t port pl n svc rfc 0 st)))
          \<le> length (sends st) + 2"
proof -
  have b1: "retry_loop att t port pl n svc 0 st = Inr (one_attempt (att 0) t port pl n svc st)
          \<and> sends (loop_state (retry_loop att t port pl n svc 0 st))
              = sends st @ [Sys_sendto t port (probe_bytes pl n)]"
    if "verdict_of (attempt_result (att 0)) = Some Open
          \<or> verdict_of (attempt_result (att 0)) = Some Closed"
  proof -
    from that have r: "attempt_result (att 0) = 0 \<or> attempt_result (att 0) = 2"
      by (auto simp: verdict_of_def split: if_splits)
    show ?thesis
      using retry_loop_one [of att, OF assms r] by (simp add: loop_state_def one_attempt_sends)
  qed
  have b2: "sends (loop_state (retry_loop att t port pl n svc 0 st))
              = sends st @ [Sys_sendto t port (probe_bytes pl n),
                            Sys_sendto t port (probe_bytes pl n)]
          \<and> (0 \<le> sendto_ret (att 1) \<longrightarrow>
               retry_loop att t port pl n svc 0 st
                 = Inr (one_attempt (att 1) t port pl n svc
                          (one_attempt (att 0) t port pl n svc st)))"
    if "verdict_of (attempt_result (att 0)) = Some OpenOrFiltered
          \<or> verdict_of (attempt_result (att 0)) = Some Filtered"
  proof -
    from that have r: "attempt_result (att 0) \<noteq> 0" "attempt_result (att 0) \<noteq> 2"
      by (auto simp: verdict_of_def split: if_splits)
    show ?thesis
      using retry_loop_two [of att, OF assms r] retry_loop_two_sends [of att, OF assms r]
      by simp
  qed
  have x1: "retry_loop_ext att t port pl n svc rfc 0 st
              = Inr (one_attempt_ext (att 0) t port pl n svc rfc st)
          \<and> sends (loop_state (retry_loop_ext att t port pl n svc rfc 0 st))
              = sends st @ [Sys_sendto t port (probe_bytes pl n)]"
    if "verdict_of (attempt_result_ext (att 0)) = Some Open
          \<or> verdict_of (attempt_result_ext (att 0)) = Some Closed"
  proof -
    from that have r: "attempt_result_ext (att 0) = 0 \<or> attempt_result_ext (att 0) = 2"
      by (auto simp: verdict_of_def split: if_splits)
    show ?thesis
      using ext_retry_loop_one [of att, OF assms r]
      by (simp add: loop_state_def ext_one_attempt_sends)
  qed
  have x2: "sends (loop_state (retry_loop_ext att t port pl n svc rfc 0 st))
              = sends st @ [Sys_sendto t port (probe_bytes pl n),
                            Sys_sendto t port (probe_bytes pl n)]
          \<and> (0 \<le> sendto_ret (att 1) \<longrightarrow>
               retry_loop_ext att t port pl n svc rfc 0 st
                 = Inr (one_attempt_ext (att 1) t port pl n svc rfc
                          (one_attempt_ext (att 0) t port pl n svc rfc st)))"
    if "verdict_of (attempt_result_ext (att 0)) = Some OpenOrFiltered
          \<or> verdict_of (attempt_result_ext (att 0)) = Some Filtered"
  proof -
    from that have r: "attempt_result_ext (att 0) \<noteq> 0" "attempt_result_ext (att 0) \<noteq> 2"
      by (auto simp: verdict_of_def split: if_splits)
    show ?thesis
      using ext_retry_loop_two [of att, OF assms r]
        ext_retry_loop_two_sends [of att, OF assms r]
      by simp
  qed
  show ?thesis
    using MAX_RETRIES_def b1 b2 x1 x2 retry_loop_sends_le [of att t port pl n svc st]
      ext_retry_loop_sends_le [of att t port pl n svc rfc st]
    by blast
qed

lemma retry_send_counts_example:
  "0 \<le> sendto_ret env_timeout
   \<and> verdict_of (attempt_result env_timeout) = Some OpenOrFiltered
   \<and> sends (loop_state (retry_loop (\<lambda>i. env_timeout) ''10.0.0.1'' 54 empty_probe 0 None 0
                           init_state))
       = [Sys_sendto ''10.0.0.1'' 54 [], Sys_sendto ''10.0.0.1'' 54 []]
   \<and> 0 \<le> sendto_ret (env_icmp 3 3)
   \<and> verdict_of (attempt_result (env_icmp 3 3)) = Some Closed
   \<and> sends (loop_state (retry_loop (\<lambda>i. env_icmp 3 3) ''10.0.0.1'' 54 empty_probe 0 None 0
                           init_state))
       = [Sys_sendto ''10.0.0.1'' 54 []]"
proof -
  have s1: "0 \<le> sendto_ret env_timeout" by (simp add: env_timeout_def)
  have s2: "0 \<le> sendto_ret (env_icmp 3 3)" by (simp add: env_icmp_def)
  have v1: "verdict_of (attempt_result env_timeout) = Some OpenOrFiltered"
    by (simp add: attempt_result_def rr_timeout env_timeout_def verdict_of_def)
  have v2: "verdict_of (attempt_result (env_icmp 3 3)) = Some Closed"
    by (simp add: attempt_result_def receive_response_def receive_icmp_def env_icmp_def
          icmp_dgram_def icmp_type_def icmp_code_def ip_hl_def Let_def ICMP_UNREACH_def
          ICMP_UNREACH_PORT_def MAX_PACKET_SIZE_def verdict_of_def)
  show ?thesis
    using retry_send_counts [of "\<lambda>i. env_timeout" "''10.0.0.1''" 54 empty_probe 0 None init_state None]
      retry_send_counts [of "\<lambda>i. env_icmp 3 3" "''10.0.0.1''" 54 empty_probe 0 None init_state None]
      s1 s2 v1 v2
    by (simp add: probe_bytes_def sends_init loop_state_def one_attempt_sends)
qed

text \<open>
  C5. The retry bound of the claim holds, but its last clause does not hold of the
  code: an ambiguous verdict is not replaced by the verdict of the next attempt. On a
  port whose first probe draws an ICMP "host unreachable" and whose second probe draws
  nothing, exactly two probes are sent, and both verdicts are printed as the port's
  result and counted: the Filtered of the first attempt and the OpenOrFiltered of the
  second. The run over this one port ends with a filtered count of 2.
\<close>

theorem both_ambiguous_verdicts_recorded:
  "verdict_of (attempt_result (attempts port_unreachable_then_silent 0)) = Some Filtered
   \<and> verdict_of (attempt_result (attempts port_unreachable_then_silent 1)) = Some OpenOrFiltered
   \<and> fst (main world_unreachable_then_silent udp_probes argv_53_53) = 0
   \<and> length (sends (snd (main world_unreachable_then_silent udp_probes argv_53_53))) = 2
   \<and> stdout_lines (snd (main world_unreachable_then_silent udp_probes argv_53_53))
       = [Print_banner ''10.0.0.1'' 53 53, Print_filtered 53 3 1,
          Print_open_filtered 53 ''DNS'', Print_statistics 1 0 0 2]
   \<and> stats (snd (main world_unreachable_then_silent udp_probes argv_53_53))
       = \<lparr>total_ports = 1, open_ports = 0, closed_ports = 0, filtered_ports = 2\<rparr>
   \<and> length (sends (snd (main_ext world_unreachable_then_silent [] argv_53_53))) = 2
   \<and> stdout_lines (snd (main_ext world_unreachable_then_silent [] argv_53_53))
       = [Print_banner_ext ''10.0.0.1'' 53 53, Print_filtered_ext 53 1,
          Print_open_filtered_ext 53 ''unknown'' [], Print_statistics 1 0 0 2]
   \<and> stats (snd (main_ext world_unreachable_then_silent [] argv_53_53))
       = \<lparr>total_ports = 1, open_ports = 0, closed_ports = 0, filtered_ports = 2\<rparr>"
  by (simp add: main_def main_ext_def scan_udp_port_def scan_udp_port_ext_def
        retry_loop_unroll ext_retry_loop_unroll send_udp_probe_def send_udp_probe_ext_def
        receive_response_def receive_response_ext_def receive_icmp_def receive_icmp_ext_def
        print_statistics_def attempt_result_def verdict_of_def
        world_unreachable_then_silent_def port_unreachable_then_silent_def argv_53_53_def
        env_icmp_def env_timeout_def icmp_dgram_def icmp_type_def icmp_code_def ip_hl_def
        ICMP_UNREACH_def ICMP_UNREACH_PORT_def
        Let_def emit_def inc_filtered_def inc_total_def init_state_def
        udp_probes_def mk_probe_def dns_probe_def or_unknown_def or_empty_def
        MAX_PACKET_SIZE_def stdout_lines_def sends_def
        port_loop.simps [of _ _ _ 53] port_loop.simps [of _ _ _ 54]
        port_loop_ext.simps [of _ _ _ 53] port_loop_ext.simps [of _ _ _ 54])

section \<open>Statistics\<close>

text \<open>
  C6. The counters are not changed once per port: on the range 53-54, when port 53
  replies and port 54 stays silent, the run ends with total 2, open 1, closed 0 and a
  filtered count of 2, not 1: port 54 is printed and counted on each of its two
  attempts.
\<close>

theorem silent_port_counted_per_attempt:
  "port_replies (port_envs world_53_replies 53)
   \<and> port_times_out (port_envs world_53_replies 54)
   \<and> fst (main world_53_replies udp_probes argv_53_54) = 0
   \<and> stats (snd (main world_53_replies udp_probes argv_53_54))
       = \<lparr>total_ports = 2, open_ports = 1, closed_ports = 0, filtered_ports = 2\<rparr>
   \<and> stats (snd (main world_53_replies udp_probes argv_53_54))
       \<noteq> \<lparr>total_ports = 2, open_ports = 1, closed_ports = 0, filtered_ports = 1\<rparr>
   \<and> stdout_lines (snd (main world_53_replies udp_probes argv_53_54))
       = [Print_banner ''10.0.0.1'' 53 54, Print_open 53 ''DNS'' 5,
          Print_open_filtered 54 ''unknown'', Print_open_filtered 54 ''unknown'',
          Print_statistics 2 1 0 2]
   \<and> stats (snd (main_ext world_53_replies [] argv_53_54))
       = \<lparr>total_ports = 2, open_ports = 1, closed_ports = 0, filtered_ports = 2\<rparr>"
  by (simp add: main_def main_ext_def scan_udp_port_def scan_udp_port_ext_def
        retry_loop_unroll ext_retry_loop_unroll send_udp_probe_def send_udp_probe_ext_def
        receive_response_def receive_response_ext_def print_statistics_def
        world_53_replies_def argv_53_54_def env_udp_reply_def env_timeout_def port_with_def
        port_replies_def port_times_out_def
        Let_def emit_def inc_open_def inc_filtered_def inc_total_def init_state_def
        udp_probes_def mk_probe_def dns_probe_def or_unknown_def or_empty_def
        MAX_PACKET_SIZE_def stdout_lines_def
        port_loop.simps [of _ _ _ 53] port_loop.simps [of _ _ _ 54] port_loop.simps [of _ _ _ 55]
        port_loop_ext.simps [of _ _ _ 53] port_loop_ext.simps [of _ _ _ 54]
        port_loop_ext.simps [of _ _ _ 55])

section \<open>Failures and the command line\<close>

text \<open>
  C7, as the code has it. When the process is not root and the raw socket is refused
  on every port, \<^verbatim>\<open>main\<close> prints its warning and still runs over the whole range
  and exits with code 0, but each port is given up before any probe is sent: no probe
  goes out, no verdict line is printed, and the open, closed and filtered counters stay
  0 while the total counts every port. A single port is given up right after the two
  \<^verbatim>\<open>socket\<close> calls, whatever the target would have answered.
\<close>

theorem raw_socket_refused_aborts_port:
  assumes "length argv = 4" and "1 \<le> atoi w (argv ! 2)"
    and "atoi w (argv ! 2) \<le> atoi w (argv ! 3)" and "atoi w (argv ! 3) \<le> 65535"
    and "geteuid w \<noteq> 0"
    and "\<forall>p. 0 \<le> udp_socket_ret (port_envs w p) \<and> icmp_socket_ret (port_envs w p) < 0"
  shows "fst (main w probes argv) = 0
     \<and> Eprint_not_root \<in> set (trace (snd (main w probes argv)))
     \<and> sends (snd (main w probes argv)) = []
     \<and> stdout_lines (snd (main w probes argv))
         = [Print_banner (argv ! 1) (atoi w (argv ! 2)) (atoi w (argv ! 3)),
            Print_statistics (atoi w (argv ! 3) - atoi w (argv ! 2) + 1) 0 0 0]
     \<and> fst (main_ext w xprobes argv) = 0
     \<and> Eprint_not_root \<in> set (trace (snd (main_ext w xprobes argv)))
     \<and> sends (snd (main_ext w xprobes argv)) = []
     \<and> stdout_lines (snd (main_ext w xprobes argv))
         = [Print_banner_ext (argv ! 1) (atoi w (argv ! 2)) (atoi w (argv ! 3)),
            Print_statistics (atoi w (argv ! 3) - atoi w (argv ! 2) + 1) 0 0 0]
     \<and> scan_udp_port probes (port_envs w p) t p st
         = emit Sys_close_udp (emit (Perror ''ICMP socket creation failed (need root)'')
             (emit Sys_socket_raw (emit Sys_socket_dgram st)))
     \<and> scan_udp_port_ext xprobes (port_envs w p) t p st
         = emit Sys_close_udp (emit Sys_socket_raw (emit Sys_socket_dgram st))"
proof -
  let ?s = "atoi w (argv ! 2)" and ?e = "atoi w (argv ! 3)"
  let ?t = "argv ! 1"
  let ?st = "emit (Print_banner ?t ?s ?e) (start_state w)"
  let ?xst = "emit (Print_banner_ext ?t ?s ?e) (start_state w)"
  have nr: "\<forall>p. ?s \<le> p \<and> p \<le> ?e \<longrightarrow>
      0 \<le> udp_socket_ret (port_envs w p) \<and> icmp_socket_ret (port_envs w p) < 0"
    using assms(6) by simp
  have ab: "\<forall>p. ?s \<le> p \<and> p \<le> ?e \<longrightarrow>
      udp_socket_ret (port_envs w p) < 0 \<or> icmp_socket_ret (port_envs w p) < 0
        \<or> sendto_ret (attempts (port_envs w p) 0) < 0"
    using assms(6) by simp
  have warn: "Eprint_not_root \<in> set (trace ?st)" "Eprint_not_root \<in> set (trace ?xst)"
    using assms(5) by (simp_all add: trace_emit start_state_proj)
  have b: "fst (main w probes argv) = 0
     \<and> Eprint_not_root \<in> set (trace (snd (main w probes argv)))
     \<and> sends (snd (main w probes argv)) = []
     \<and> stdout_lines (snd (main w probes argv))
         = [Print_banner ?t ?s ?e, Print_statistics (?e - ?s + 1) 0 0 0]"
    using port_loop_no_raw [OF nr, of probes ?t ?st]
      port_loop_aborted_stats [OF ab, of probes ?t ?st]
      port_loop_total [of probes "port_envs w" ?t ?s ?e ?st] warn(1) assms(3)
    by (auto simp: main_valid [OF assms(1-4)] print_statistics_proj sends_emit stdout_emit
          stats_emit start_state_proj stats_init)
  have x: "fst (main_ext w xprobes argv) = 0
     \<and> Eprint_not_root \<in> set (trace (snd (main_ext w xprobes argv)))
     \<and> sends (snd (main_ext w xprobes argv)) = []
     \<and> stdout_lines (snd (main_ext w xprobes argv))
         = [Print_banner_ext ?t ?s ?e, Print_statistics (?e - ?s + 1) 0 0 0]"
    using ext_port_loop_no_raw [OF nr, of xprobes ?t ?xst]
      ext_port_loop_aborted_stats [OF ab, of xprobes ?t ?xst]
      ext_port_loop_total [of xprobes "port_envs w" ?t ?s ?e ?xst] warn(2) assms(3)
    by (auto simp: main_valid [OF assms(1-4)] print_statistics_proj sends_emit stdout_emit
          stats_emit start_state_proj stats_init)
  have one: "0 \<le> udp_socket_ret (port_envs w p)" "icmp_socket_ret (port_envs w p) < 0"
    using assms(6) by simp_all
  show ?thesis
    using b x by (simp add: scan_no_raw_socket [OF one] ext_scan_no_raw_socket [OF one])
qed

theorem raw_socket_refused_aborts_port_witness:
  "length argv_53_54 = 4 \<and> atoi world_unprivileged (argv_53_54 ! 2) = 53
   \<and> atoi world_unprivileged (argv_53_54 ! 3) = 54 \<and> geteuid world_unprivileged \<noteq> 0
   \<and> (\<forall>p. 0 \<le> udp_socket_ret (port_envs world_unprivileged p)
           \<and> icmp_socket_ret (port_envs world_unprivileged p) < 0)
   \<and> fst (main world_unprivileged udp_probes argv_53_54) = 0
   \<and> sends (snd (main world_unprivileged udp_probes argv_53_54)) = []
   \<and> stdout_lines (snd (main world_unprivileged udp_probes argv_53_54))
       = [Print_banner ''10.0.0.1'' 53 54, Print_statistics 2 0 0 0]"
proof -
  have h: "length argv_53_54 = 4" "1 \<le> atoi world_unprivileged (argv_53_54 ! 2)"
    "atoi world_unprivileged (argv_53_54 ! 2) \<le> atoi world_unprivileged (argv_53_54 ! 3)"
    "atoi world_unprivileged (argv_53_54 ! 3) \<le> 65535" "geteuid world_unprivileged \<noteq> 0"
    "\<forall>p. 0 \<le> udp_socket_ret (port_envs world_unprivileged p)
         \<and> icmp_socket_ret (port_envs world_unprivileged p) < 0"
    by (simp_all add: argv_53_54_def world_unprivileged_def port_no_raw_def)
  have v: "atoi world_unprivileged (argv_53_54 ! 2) = 53"
    "atoi world_unprivileged (argv_53_54 ! 3) = 54" "argv_53_54 ! 1 = ''10.0.0.1''"
    by (simp_all add: argv_53_54_def world_unprivileged_def)
  show ?thesis
    using raw_socket_refused_aborts_port [OF h, of udp_probes] h(1,5,6) v
    by simp
qed

text \<open>
  C7 as stated fails when the raw socket is refused: a port that would reply to the
  probe and a port that would stay silent are scanned to the same state, with nothing
  sent and nothing printed on standard output, and the run over 53-54 ends with all
  three verdict counters at 0.
\<close>

theorem raw_socket_refused_counterexample:
  "geteuid world_unprivileged \<noteq> 0
   \<and> icmp_socket_ret (port_no_raw env_udp_reply) < 0
   \<and> attempt_result env_udp_reply = 0 \<and> attempt_result env_timeout = 1
   \<and> scan_udp_port udp_probes (port_no_raw env_udp_reply) ''10.0.0.1'' 53 init_state
       = scan_udp_port udp_probes (port_no_raw env_timeout) ''10.0.0.1'' 53 init_state
   \<and> stdout_lines (scan_udp_port udp_probes (port_no_raw env_udp_reply) ''10.0.0.1'' 53
                      init_state) = []
   \<and> scan_udp_port_ext [] (port_no_raw env_udp_reply) ''10.0.0.1'' 53 init_state
       = scan_udp_port_ext [] (port_no_raw env_timeout) ''10.0.0.1'' 53 init_state
   \<and> main world_unprivileged udp_probes argv_53_54
       = (0, \<lparr>stats = \<lparr>total_ports = 2, open_ports = 0, closed_ports = 0, filtered_ports = 0\<rparr>,
              trace = [Eprint_not_root, Print_banner ''10.0.0.1'' 53 54,
                       Sys_socket_dgram, Sys_socket_raw,
                       Perror ''ICMP socket creation failed (need root)'', Sys_close_udp,
                       Sys_usleep 10000,
                       Sys_socket_dgram, Sys_socket_raw,
                       Perror ''ICMP socket creation failed (need root)'', Sys_close_udp,
                       Sys_usleep 10000,
                       Print_statistics 2 0 0 0]\<rparr>)"
  by (simp add: main_def scan_udp_port_def scan_udp_port_ext_def print_statistics_def
        attempt_result_def receive_response_def
        world_unprivileged_def argv_53_54_def env_udp_reply_def env_timeout_def port_no_raw_def
        Let_def emit_def inc_total_def init_state_def stdout_lines_def MAX_PACKET_SIZE_def
        port_loop.simps [of _ _ _ 53] port_loop.simps [of _ _ _ 54] port_loop.simps [of _ _ _ 55])

text \<open>
  C8. With three arguments after the program name: when the first port is below 1, the
  last port is above 65535, or the first port is above the last, \<^verbatim>\<open>main\<close> returns 1
  having done nothing but print the error message, so no socket has been opened; in
  every other case it returns 0, whatever happened on the ports.
\<close>

theorem range_validation_exit_code:
  assumes "length argv = 4"
  shows "(atoi w (argv ! 2) < 1 \<or> 65535 < atoi w (argv ! 3)
            \<or> atoi w (argv ! 3) < atoi w (argv ! 2) \<longrightarrow>
            main w probes argv = (1, emit Eprint_invalid_range init_state)
          \<and> sockets (snd (main w probes argv)) = []
          \<and> main_ext w xprobes argv = (1, emit Eprint_invalid_range init_state)
          \<and> sockets (snd (main_ext w xprobes argv)) = [])
       \<and> (1 \<le> atoi w (argv ! 2) \<and> atoi w (argv ! 2) \<le> atoi w (argv ! 3)
            \<and> atoi w (argv ! 3) \<le> 65535 \<longrightarrow>
            fst (main w probes argv) = 0 \<and> fst (main_ext w xprobes argv) = 0)"
proof -
  have "sockets (emit Eprint_invalid_range init_state) = []"
    by (simp add: sockets_def emit_def init_state_def)
  then show ?thesis
    using main_invalid(1) [OF assms, of w probes] main_invalid(2) [OF assms, of w xprobes]
      main_valid(1) [OF assms, of w probes] main_valid(2) [OF assms, of w xprobes]
    by auto
qed

theorem range_validation_exit_code_witness:
  "length [''scan'', ''10.0.0.1'', ''0'', ''80''] = 4
   \<and> fst (main world_53_replies udp_probes [''scan'', ''10.0.0.1'', ''0'', ''80'']) = 1
   \<and> sockets (snd (main world_53_replies udp_probes [''scan'', ''10.0.0.1'', ''0'', ''80'']))
       = []
   \<and> fst (main world_53_replies udp_probes [''scan'', ''10.0.0.1'', ''1'', ''65536'']) = 1
   \<and> fst (main world_53_replies udp_probes [''scan'', ''10.0.0.1'', ''81'', ''80'']) = 1
   \<and> length argv_53_54 = 4
   \<and> fst (main world_53_replies udp_probes argv_53_54) = 0"
proof -
  have a: "atoi world_53_replies = atoi_digits 0" by (simp add: world_53_replies_def)
  show ?thesis
    using range_validation_exit_code
        [of "[''scan'', ''10.0.0.1'', ''0'', ''80'']" world_53_replies udp_probes "[]"]
      range_validation_exit_code
        [of "[''scan'', ''10.0.0.1'', ''1'', ''65536'']" world_53_replies udp_probes "[]"]
      range_validation_exit_code
        [of "[''scan'', ''10.0.0.1'', ''81'', ''80'']" world_53_replies udp_probes "[]"]
      range_validation_exit_code [of argv_53_54 world_53_replies udp_probes "[]"]
    by (simp add: a argv_53_54_def sockets_def emit_def init_state_def)
qed



text \<open>
  C10. The classifier returns \<open>-1\<close>, which stands for no verdict, when the wait
  fails, when a UDP datagram of length 0 or less is read and the raw socket is not
  ready, and when the datagram read from the raw socket has an ICMP type other than
  "destination unreachable". Such an attempt prints nothing on standard output and
  changes no counter. The retry loop goes on after it as after an ambiguous verdict;
  when both attempts on a port end so, the scan of the port ends after
  \<^verbatim>\<open>MAX_RETRIES\<close> sends with nothing printed on standard output and no counter
  changed.
\<close>

theorem no_verdict_attempts:
  "(select_ret a < 0 \<longrightarrow> attempt_result a = -1 \<and> attempt_result_ext a = -1)
   \<and> (0 < select_ret a \<and> udp_isset a \<and> recv_n (udp_recv a) \<le> 0 \<and> \<not> icmp_isset a \<longrightarrow>
        attempt_result a = -1 \<and> attempt_result_ext a = -1)
   \<and> (0 < select_ret a \<and> \<not> (udp_isset a \<and> 0 < recv_n (udp_recv a)) \<and> icmp_isset a
        \<and> icmp_recv a = Recv_data d \<and> dgram_icmp_type d = Some ty \<and> ty \<noteq> ICMP_UNREACH \<longrightarrow>
        attempt_result a = -1 \<and> attempt_result_ext a = -1)
   \<and> verdict_of (-1) = None
   \<and> (attempt_result a = -1 \<longrightarrow>
        fst (receive_response a port svc st) = -1
      \<and> stats (snd (receive_response a port svc st)) = stats st
      \<and> stdout_lines (snd (receive_response a port svc st)) = stdout_lines st)
   \<and> (attempt_result_ext a = -1 \<longrightarrow>
        fst (receive_response_ext a port svc rfc st) = -1
      \<and> stats (snd (receive_response_ext a port svc rfc st)) = stats st
      \<and> stdout_lines (snd (receive_response_ext a port svc rfc st)) = stdout_lines st)
   \<and> (0 \<le> sendto_ret (attempts pe 0) \<and> attempt_result (attempts pe 0) = -1 \<longrightarrow>
        sends (loop_state (retry_loop (attempts pe) t port pl n svc 0 st))
          = sends st @ [Sys_sendto t port (probe_bytes pl n),
                        Sys_sendto t port (probe_bytes pl n)])
   \<and> (0 \<le> sendto_ret (attempts pe 0) \<and> attempt_result_ext (attempts pe 0) = -1 \<longrightarrow>
        sends (loop_state (retry_loop_ext (attempts pe) t port pl n svc rfc 0 st))
          = sends st @ [Sys_sendto t port (probe_bytes pl n),
                        Sys_sendto t port (probe_bytes pl n)])
   \<and> (0 \<le> udp_socket_ret pe \<and> 0 \<le> icmp_socket_ret pe
        \<and> 0 \<le> sendto_ret (attempts pe 0) \<and> attempt_result (attempts pe 0) = -1
        \<and> 0 \<le> sendto_ret (attempts pe 1) \<and> attempt_result (attempts pe 1) = -1 \<longrightarrow>
        stats (scan_udp_port probes pe t port st) = stats st
      \<and> stdout_lines (scan_udp_port probes pe t port st) = stdout_lines st
      \<and> length (sends (scan_udp_port probes pe t port st)) = length (sends st) + MAX_RETRIES)
   \<and> (0 \<le> udp_socket_ret pe \<and> 0 \<le> icmp_socket_ret pe
        \<and> 0 \<le> sendto_ret (attempts pe 0) \<and> attempt_result_ext (attempts pe 0) = -1
        \<and> 0 \<le> sendto_ret (attempts pe 1) \<and> attempt_result_ext (attempts pe 1) = -1 \<longrightarrow>
        stats (scan_udp_port_ext xprobes pe t port st) = stats st
      \<and> stdout_lines (scan_udp_port_ext xprobes pe t port st) = stdout_lines st
      \<and> length (sends (scan_udp_port_ext xprobes pe t port st))
          = length (sends st) + MAX_RETRIES)"
proof -
  have c1: "attempt_result a = -1 \<and> attempt_result_ext a = -1" if "select_ret a < 0"
    using that
    by (simp add: attempt_result_def attempt_result_ext_def rr_select_err ext_rr_select_err)
  have c2: "attempt_result a = -1 \<and> attempt_result_ext a = -1"
    if "0 < select_ret a \<and> udp_isset a \<and> recv_n (udp_recv a) \<le> 0 \<and> \<not> icmp_isset a"
    using that
    by (simp add: attempt_result_def attempt_result_ext_def rr_to_icmp ext_rr_to_icmp
          ri_not_ready ext_ri_not_ready)
  have c3: "attempt_result a = -1 \<and> attempt_result_ext a = -1"
    if "0 < select_ret a \<and> \<not> (udp_isset a \<and> 0 < recv_n (udp_recv a)) \<and> icmp_isset a
        \<and> icmp_recv a = Recv_data d \<and> dgram_icmp_type d = Some ty \<and> ty \<noteq> ICMP_UNREACH"
    using that
    by (simp add: attempt_result_def attempt_result_ext_def rr_to_icmp ext_rr_to_icmp
          ri_other [of a d ty] ext_ri_other [of a d ty])
  have c4: "fst (receive_response a port svc st) = -1
      \<and> stats (snd (receive_response a port svc st)) = stats st
      \<and> stdout_lines (snd (receive_response a port svc st)) = stdout_lines st"
    if "attempt_result a = -1"
    using that by (simp add: rr_fst rr_stats_none rr_stdout_none)
  have c5: "fst (receive_response_ext a port svc rfc st) = -1
      \<and> stats (snd (receive_response_ext a port svc rfc st)) = stats st
      \<and> stdout_lines (snd (receive_response_ext a port svc rfc st)) = stdout_lines st"
    if "attempt_result_ext a = -1"
    using that by (simp add: ext_rr_fst ext_rr_stats_none ext_rr_stdout_none)
  have c6: "sends (loop_state (retry_loop (attempts pe) t port pl n svc 0 st))
          = sends st @ [Sys_sendto t port (probe_bytes pl n),
                        Sys_sendto t port (probe_bytes pl n)]"
    if "0 \<le> sendto_ret (attempts pe 0) \<and> attempt_result (attempts pe 0) = -1"
    using that retry_loop_two_sends [of "attempts pe" t port pl n svc st] by simp
  have c7: "sends (loop_state (retry_loop_ext (attempts pe) t port pl n svc rfc 0 st))
          = sends st @ [Sys_sendto t port (probe_bytes pl n),
                        Sys_sendto t port (probe_bytes pl n)]"
    if "0 \<le> sendto_ret (attempts pe 0) \<and> attempt_result_ext (attempts pe 0) = -1"
    using that ext_retry_loop_two_sends [of "attempts pe" t port pl n svc rfc st] by simp
  have c8: "stats (scan_udp_port probes pe t port st) = stats st
      \<and> stdout_lines (scan_udp_port probes pe t port st) = stdout_lines st
      \<and> length (sends (scan_udp_port probes pe t port st)) = length (sends st) + MAX_RETRIES"
    if "0 \<le> udp_socket_ret pe \<and> 0 \<le> icmp_socket_ret pe
        \<and> 0 \<le> sendto_ret (attempts pe 0) \<and> attempt_result (attempts pe 0) = -1
        \<and> 0 \<le> sendto_ret (attempts pe 1) \<and> attempt_result (attempts pe 1) = -1"
    using that scan_no_verdict [of pe probes t port st] by simp
  have c9: "stats (scan_udp_port_ext xprobes pe t port st) = stats st
      \<and> stdout_lines (scan_udp_port_ext xprobes pe t port st) = stdout_lines st
      \<and> length (sends (scan_udp_port_ext xprobes pe t port st))
          = length (sends st) + MAX_RETRIES"
    if "0 \<le> udp_socket_ret pe \<and> 0 \<le> icmp_socket_ret pe
        \<and> 0 \<le> sendto_ret (attempts pe 0) \<and> attempt_result_ext (attempts pe 0) = -1
        \<and> 0 \<le> sendto_ret (attempts pe 1) \<and> attempt_result_ext (attempts pe 1) = -1"
    using that ext_scan_no_verdict [of pe xprobes t port st] by simp
  have v: "verdict_of (-1) = None" by (simp add: verdict_of_def)
  from c1 c2 c3 v c4 c5 c6 c7 c8 c9 show ?thesis by blast
qed

theorem no_verdict_attempts_witness:
  "select_ret env_select_error < 0 \<and> attempt_result env_select_error = -1
   \<and> 0 \<le> udp_socket_ret (port_with env_select_error)
   \<and> 0 \<le> icmp_socket_ret (port_with env_select_error)
   \<and> 0 \<le> sendto_ret (attempts (port_with env_select_error) 0)
   \<and> 0 \<le> sendto_ret (attempts (port_with env_select_error) 1)
   \<and> stats (scan_udp_port udp_probes (port_with env_select_error) ''10.0.0.1'' 54 init_state)
       = stats init_state
   \<and> stdout_lines (scan_udp_port udp_probes (port_with env_select_error) ''10.0.0.1'' 54
                      init_state) = []
   \<and> length (sends (scan_udp_port udp_probes (port_with env_select_error) ''10.0.0.1'' 54
                       init_state)) = 2
   \<and> 0 < select_ret env_udp_empty \<and> udp_isset env_udp_empty
   \<and> recv_n (udp_recv env_udp_empty) \<le> 0 \<and> \<not> icmp_isset env_udp_empty
   \<and> attempt_result env_udp_empty = -1
   \<and> dgram_icmp_type (icmp_dgram 0 0) = Some 0
   \<and> attempt_result (env_icmp 0 0) = -1"
proof -
  have h: "select_ret env_select_error < 0"
    "0 \<le> udp_socket_ret (port_with env_select_error)"
    "0 \<le> icmp_socket_ret (port_with env_select_error)"
    "0 \<le> sendto_ret (attempts (port_with env_select_error) 0)"
    "0 \<le> sendto_ret (attempts (port_with env_select_error) 1)"
    "attempts (port_with env_select_error) 0 = env_select_error"
    "attempts (port_with env_select_error) 1 = env_select_error"
    by (simp_all add: env_select_error_def port_with_def)
  have e: "0 < select_ret env_udp_empty" "udp_isset env_udp_empty"
    "recv_n (udp_recv env_udp_empty) \<le> 0" "\<not> icmp_isset env_udp_empty"
    by (simp_all add: env_udp_empty_def)
  have i: "0 < select_ret (env_icmp 0 0)"
    "\<not> (udp_isset (env_icmp 0 0) \<and> 0 < recv_n (udp_recv (env_icmp 0 0)))"
    "icmp_isset (env_icmp 0 0)" "icmp_recv (env_icmp 0 0) = Recv_data (icmp_dgram 0 0)"
    "dgram_icmp_type (icmp_dgram 0 0) = Some 0" "(0::byte) \<noteq> ICMP_UNREACH"
    by (simp_all add: env_icmp_def icmp_dgram_def dgram_icmp_type_def ICMP_UNREACH_def)
  show ?thesis
    using no_verdict_attempts [where a = env_select_error and pe = "port_with env_select_error"
        and probes = udp_probes and t = "''10.0.0.1''" and port = 54 and st = init_state]
      no_verdict_attempts [where a = env_udp_empty]
      no_verdict_attempts [where a = "env_icmp 0 0" and d = "icmp_dgram 0 0" and ty = 0]
      h e i
    by (simp add: MAX_RETRIES_def stdout_init sends_init)
qed

end
